theory Spec2Isabelle
  imports Complex_Main
begin

section \<open>Contingency analysis: constants, data, executor and compliance checks\<close>

text \<open>
  The development embeds the contingency executor and the compliance evaluator of
  \<^verbatim>\<open>optimisation/psse.py\<close>, the constants of \<^verbatim>\<open>optimisation/constants.py\<close> and the
  orchestration of \<^verbatim>\<open>Main.py\<close>.  Python floats are modelled as exact reals plus the
  not-a-number value; exceptions are values of a sum type; the load-flow engine is a record
  of state-transforming functions over an abstract engine state.
\<close>

subsection \<open>Exceptions\<close>

datatype exn = ValueError | SyntaxError | IOError | KeyError | TypeError

subsection \<open>Constants (constants.py)\<close>

definition Contingency_bc :: string where
  "Contingency_bc = ''BASE_CASE''"

definition Contingency_compliant :: string where
  "Contingency_compliant = ''Compliant''"

definition Contingency_v_step_lbl :: string where
  "Contingency_v_step_lbl = ''Voltage Step Limit''"

definition Contingency_rate_for_checking :: string where
  "Contingency_rate_for_checking = ''RATEA''"

definition Contingency_non_convergent :: string where
  "Contingency_non_convergent = ''Non-Convergent''"

definition Contingency_convergent :: string where
  "Contingency_convergent = ''Convergent''"

definition Contingency_non_convergent_vstep :: string where
  "Contingency_non_convergent_vstep = ''Non-Convergent Step Change''"

definition Contingency_non_convergent_vsteady :: string where
  "Contingency_non_convergent_vsteady = ''Non-Convergent Steady State''"

definition Contingency_error :: string where
  "Contingency_error = ''ERROR''"

subsection \<open>The contingency object\<close>

text \<open>
  Rows of the switching tables of a contingency: a circuit or two-winding transformer is
  (from bus, to bus, id, status), a three-winding transformer (winding buses 1 to 3, id,
  status), a busbar (number, state), a shunt (bus, id, status).
\<close>

type_synonym branch_row = "int \<times> int \<times> string \<times> int"
type_synonym tx3_row = "int \<times> int \<times> int \<times> string \<times> int"
type_synonym busbar_row = "int \<times> int"
type_synonym shunt_row = "int \<times> string \<times> int"

record contingency =
  cname :: string
  circuits :: "branch_row list"
  tx2 :: "branch_row list"
  tx3 :: "tx3_row list"
  busbars :: "busbar_row list"
  fixed_shunts :: "shunt_row list"
  switched_shunts :: "shunt_row list"
  busbars_to_ignore :: "int list"
  setup_correctly :: bool
  convergent_v_step :: bool
  convergent_v_steady :: bool
  voltage_control_contingency :: bool

text \<open>\<^verbatim>\<open>Contingency.convergence_message\<close>: the branches in the order of the source.\<close>

definition convergence_message :: "contingency \<Rightarrow> string" where
  "convergence_message c =
     (if \<not> convergent_v_step c \<and> \<not> convergent_v_steady c then Contingency_non_convergent
      else if convergent_v_steady c \<and> convergent_v_step c then Contingency_convergent
      else if convergent_v_steady c \<and> \<not> convergent_v_step c
        then Contingency_non_convergent_vstep
      else if convergent_v_step c \<and> \<not> convergent_v_steady c
        then Contingency_non_convergent_vsteady
      else Contingency_error)"

subsection \<open>Floats and data frames\<close>

text \<open>
  A cell of a pandas table is a float, the not-a-number value or a boolean.  Comparisons
  with not-a-number are false and arithmetic with it gives not-a-number; booleans count as
  0 and 1 in arithmetic, as in Python.

  A float is taken as the real number it denotes and arithmetic is exact: the rounding of
  a double is not part of the model.  The only arithmetic on table cells is the
  subtraction of the step-change check, and the examples for it use voltages whose
  difference a double holds exactly (1.0, 1.0625 and 0.96875), so that the program
  computes the very number that the model computes; elsewhere cells are only compared,
  away from the boundary.  The targets of the reactive compensation search are reals in
  the same way.
\<close>

datatype cell = Num real | NaN | Flag bool

fun to_float :: "cell \<Rightarrow> real option" where
  "to_float (Num x) = Some x"
| "to_float NaN = None"
| "to_float (Flag b) = Some (if b then 1 else 0)"

definition fsub :: "cell \<Rightarrow> cell \<Rightarrow> cell" where
  "fsub a b = (case (to_float a, to_float b) of
                 (Some x, Some y) \<Rightarrow> Num (x - y) | _ \<Rightarrow> NaN)"

definition fabs :: "cell \<Rightarrow> cell" where
  "fabs a = (case to_float a of Some x \<Rightarrow> Num \<bar>x\<bar> | None \<Rightarrow> NaN)"

definition fle :: "cell \<Rightarrow> cell \<Rightarrow> bool" where
  "fle a b = (case (to_float a, to_float b) of
                (Some x, Some y) \<Rightarrow> x \<le> y | _ \<Rightarrow> False)"

definition flt :: "cell \<Rightarrow> cell \<Rightarrow> bool" where
  "flt a b = (case (to_float a, to_float b) of
                (Some x, Some y) \<Rightarrow> x < y | _ \<Rightarrow> False)"

definition feq :: "cell \<Rightarrow> cell \<Rightarrow> bool" where
  "feq a b = (case (to_float a, to_float b) of
                (Some x, Some y) \<Rightarrow> x = y | _ \<Rightarrow> False)"

text \<open>
  Row labels are bus numbers or positions (integers) or the string labels of the rows that
  the compliance checks add.  A series is a labelled column; a frame has an index and
  named columns, each as long as the index.
\<close>

datatype label = IntL int | StrL string

type_synonym series = "(label \<times> cell) list"

record frame =
  df_index :: "label list"
  df_columns :: "string \<rightharpoonup> cell list"

definition and_then :: "exn + 'a \<Rightarrow> ('a \<Rightarrow> exn + 'b) \<Rightarrow> exn + 'b" where
  "and_then m f = (case m of Inl e \<Rightarrow> Inl e | Inr x \<Rightarrow> f x)"

definition fit :: "nat \<Rightarrow> cell list \<Rightarrow> cell list" where
  "fit n xs = take n (xs @ replicate n NaN)"

text \<open>\<^verbatim>\<open>pd.DataFrame(data).transpose()\<close> with the given column names.\<close>

definition mk_frame :: "label list \<Rightarrow> (string \<times> cell list) list \<Rightarrow> frame" where
  "mk_frame idx cs =
     \<lparr>df_index = idx, df_columns = map_of (map (\<lambda>(c, xs). (c, fit (length idx) xs)) cs)\<rparr>"

text \<open>\<^verbatim>\<open>df[c]\<close>: a missing column raises KeyError.\<close>

definition getitem :: "frame \<Rightarrow> string \<Rightarrow> exn + series" where
  "getitem df c = (case df_columns df c of
                     None \<Rightarrow> Inl KeyError
                   | Some xs \<Rightarrow> Inr (zip (df_index df) xs))"

text \<open>\<^verbatim>\<open>df[c] = values\<close> with a list: the length must be that of the index.\<close>

definition setitem_list :: "frame \<Rightarrow> string \<Rightarrow> cell list \<Rightarrow> exn + frame" where
  "setitem_list df c xs =
     (if length xs \<noteq> length (df_index df) then Inl ValueError
      else Inr (df\<lparr>df_columns := (df_columns df)(c \<mapsto> xs)\<rparr>))"

text \<open>\<^verbatim>\<open>df[c] = value\<close> with a scalar: the value in every row.\<close>

definition setitem_scalar :: "frame \<Rightarrow> string \<Rightarrow> cell \<Rightarrow> frame" where
  "setitem_scalar df c v =
     df\<lparr>df_columns := (df_columns df)(c \<mapsto> replicate (length (df_index df)) v)\<rparr>"

text \<open>Reading a series at a label; not-a-number where the label is absent.\<close>

definition series_at :: "series \<Rightarrow> label \<Rightarrow> cell" where
  "series_at s l = (case map_of s l of None \<Rightarrow> NaN | Some v \<Rightarrow> v)"

text \<open>\<^verbatim>\<open>df[c] = series\<close>: the series is aligned to the index of the frame.\<close>

definition setitem_series :: "frame \<Rightarrow> string \<Rightarrow> series \<Rightarrow> frame" where
  "setitem_series df c s =
     df\<lparr>df_columns := (df_columns df)(c \<mapsto> map (series_at s) (df_index df))\<rparr>"

text \<open>
  \<^verbatim>\<open>df.loc[l, c] = v\<close>: sets the cell in the rows labelled \<open>l\<close>; a label that is not
  in the index is appended as a new row, not-a-number in every other column.
\<close>

definition column_or_nan :: "frame \<Rightarrow> string \<Rightarrow> cell list" where
  "column_or_nan df c = (case df_columns df c of
                           None \<Rightarrow> replicate (length (df_index df)) NaN
                         | Some xs \<Rightarrow> xs)"

definition loc_set :: "frame \<Rightarrow> label \<Rightarrow> string \<Rightarrow> cell \<Rightarrow> frame" where
  "loc_set df l c v =
     (let df1 = (if l \<in> set (df_index df) then df
                 else \<lparr>df_index = df_index df @ [l],
                       df_columns = (\<lambda>k. map_option (\<lambda>xs. xs @ [NaN]) (df_columns df k))\<rparr>)
      in df1\<lparr>df_columns := (df_columns df1)
               (c \<mapsto> map (\<lambda>(l', x). if l' = l then v else x)
                        (zip (df_index df1) (column_or_nan df1 c)))\<rparr>)"

text \<open>\<^verbatim>\<open>df.loc[l, cs]\<close>: the cells of row \<open>l\<close>; KeyError for a missing label or column.\<close>

definition cell_at :: "frame \<Rightarrow> label \<Rightarrow> string \<Rightarrow> cell" where
  "cell_at df l c = series_at (zip (df_index df) (column_or_nan df c)) l"

definition loc_get :: "frame \<Rightarrow> label \<Rightarrow> string list \<Rightarrow> exn + (string \<times> cell) list" where
  "loc_get df l cs =
     (if l \<notin> set (df_index df) \<or> list_ex (\<lambda>c. df_columns df c = None) cs then Inl KeyError
      else Inr (map (\<lambda>c. (c, cell_at df l c)) cs))"

text \<open>A column is aligned when it has one cell per row; the frames of the program are
  built that way.\<close>

definition aligned :: "frame \<Rightarrow> string \<Rightarrow> bool" where
  "aligned df c = (length (column_or_nan df c) = length (df_index df))"

text \<open>\<^verbatim>\<open>df.loc[mask, cs]\<close>: the rows selected by a boolean mask, column by column.\<close>

definition loc_mask :: "frame \<Rightarrow> bool list \<Rightarrow> string list \<Rightarrow> exn + (string \<times> series) list" where
  "loc_mask df msk cs =
     (if list_ex (\<lambda>c. df_columns df c = None) cs then Inl KeyError
      else Inr (map (\<lambda>c. (c, map snd (filter fst
                  (zip msk (zip (df_index df) (column_or_nan df c)))))) cs))"

text \<open>
  \<^verbatim>\<open>left.sub(right, axis=0)\<close>: pandas aligns both operands on the union of their row
  labels before subtracting, so a label of only one operand gives not-a-number.  Row
  labels are taken to be unique (bus numbers are).
\<close>

definition union_index :: "label list \<Rightarrow> label list \<Rightarrow> label list" where
  "union_index a b = a @ filter (\<lambda>l. l \<notin> set a) b"

definition sub_axis0 :: "series \<Rightarrow> series \<Rightarrow> series" where
  "sub_axis0 left right =
     map (\<lambda>l. (l, fsub (series_at left l) (series_at right l)))
       (union_index (map fst left) (map fst right))"

text \<open>\<^verbatim>\<open>pd.concat([a, b])\<close>: the rows of \<open>a\<close>, then the rows of \<open>b\<close>.\<close>

definition concat_rows :: "frame \<Rightarrow> frame \<Rightarrow> frame" where
  "concat_rows a b =
     \<lparr>df_index = df_index a @ df_index b,
      df_columns = (\<lambda>k. case (df_columns a k, df_columns b k) of
                          (None, None) \<Rightarrow> None
                        | _ \<Rightarrow> Some (column_or_nan a k @ column_or_nan b k))\<rparr>"

definition filter_rows :: "frame \<Rightarrow> bool list \<Rightarrow> frame" where
  "filter_rows df msk =
     \<lparr>df_index = map snd (filter fst (zip msk (df_index df))),
      df_columns = (\<lambda>k. map_option (\<lambda>xs. map snd (filter fst (zip msk xs)))
                          (df_columns df k))\<rparr>"

text \<open>\<^verbatim>\<open>df.drop_duplicates(subset=c, keep=False)\<close>: only the rows whose value in
  column \<open>c\<close> occurs once are kept.\<close>

definition drop_duplicates :: "frame \<Rightarrow> string \<Rightarrow> frame" where
  "drop_duplicates df c =
     (let xs = column_or_nan df c
      in filter_rows df (map (\<lambda>x. count_list xs x = 1) xs))"

text \<open>\<^verbatim>\<open>df.empty\<close>; every frame of the program that has rows has columns.\<close>

definition df_empty :: "frame \<Rightarrow> bool" where
  "df_empty df = (df_index df = [])"

definition empty_frame :: frame where
  "empty_frame = \<lparr>df_index = [], df_columns = Map.empty\<rparr>"

text \<open>\<^verbatim>\<open>df.loc[mask, c] = v\<close>.\<close>

definition loc_mask_set :: "frame \<Rightarrow> bool list \<Rightarrow> string \<Rightarrow> cell \<Rightarrow> frame" where
  "loc_mask_set df msk c v =
     df\<lparr>df_columns := (df_columns df)
          (c \<mapsto> map (\<lambda>(m, x). if m then v else x) (zip msk (column_or_nan df c)))\<rparr>"

definition select_columns :: "frame \<Rightarrow> string list \<Rightarrow> frame" where
  "select_columns df cs =
     df\<lparr>df_columns := (\<lambda>k. if k \<in> set cs then df_columns df k else None)\<rparr>"

definition ints :: "int list \<Rightarrow> cell list" where
  "ints xs = map (\<lambda>i. Num (real_of_int i)) xs"

definition reals :: "real list \<Rightarrow> cell list" where
  "reals xs = map Num xs"

definition cell_isin :: "cell \<Rightarrow> int list \<Rightarrow> bool" where
  "cell_isin c bs = (case c of Num x \<Rightarrow> list_ex (\<lambda>b. real_of_int b = x) bs | _ \<Rightarrow> False)"

subsection \<open>Thresholds (constants.py)\<close>

definition EirGridThresholds_steady_state_limits :: "((real \<times> real) \<times> (real \<times> real)) list" where
  "EirGridThresholds_steady_state_limits =
     [((109, 111), (99 / 110, 120 / 110)),
      ((219, 221), (200 / 220, 240 / 220)),
      ((250, 276), (250 / 275, 303 / 275)),
      ((379, 401), (360 / 380, 410 / 380))]"

definition EirGridThresholds_reactor_step_change_limit :: real where
  "EirGridThresholds_reactor_step_change_limit = 3 / 100"

definition EirGridThresholds_cont_step_change_limit :: real where
  "EirGridThresholds_cont_step_change_limit = 1 / 10"

definition EirGridThresholds_rating_threshold :: real where
  "EirGridThresholds_rating_threshold = 0"

definition ReactiveCompensationLimits_max_iterations :: nat where
  "ReactiveCompensationLimits_max_iterations = 100"

definition ReactiveCompensationLimits_vmax_target :: real where
  "ReactiveCompensationLimits_vmax_target = 1078947 / 1000000"

definition ReactiveCompensationLimits_vmin_target :: real where
  "ReactiveCompensationLimits_vmin_target = 948 / 1000"

definition ReactiveCompensationLimits_v_step :: real where
  "ReactiveCompensationLimits_v_step =
     (ReactiveCompensationLimits_vmax_target - ReactiveCompensationLimits_vmin_target)
       / real ReactiveCompensationLimits_max_iterations"

definition ReactiveCompensationLimits_q_max :: real where
  "ReactiveCompensationLimits_q_max = - 1000"

definition ReactiveCompensationLimits_q_min :: real where
  "ReactiveCompensationLimits_q_min = 0"

definition ReactiveCompensationLimits_q_step :: real where
  "ReactiveCompensationLimits_q_step = - 5"

definition ReactiveCompensationLimits_target_machines :: "(int \<times> string) list" where
  "ReactiveCompensationLimits_target_machines = [(2204, ''SH''), (5464, ''SH'')]"

definition ReactiveCompensationLimits_target_shunts :: bool where
  "ReactiveCompensationLimits_target_shunts = False"

definition ReactiveCompensationLimits_test_target_bus :: bool where
  "ReactiveCompensationLimits_test_target_bus = False"

definition PSSE_sid :: int where
  "PSSE_sid = 1"

definition Busbars_bus :: string where "Busbars_bus = ''NUMBER''"
definition Busbars_state :: string where "Busbars_state = ''TYPE''"
definition Busbars_nominal :: string where "Busbars_nominal = ''BASE''"
definition Busbars_voltage :: string where "Busbars_voltage = ''PU''"
definition Busbars_lower_limit :: string where "Busbars_lower_limit = ''LOWER_LIMIT''"
definition Busbars_upper_limit :: string where "Busbars_upper_limit = ''UPPER_LIMIT''"

definition Branches_status :: string where "Branches_status = ''STATUS''"
definition Branches_loading :: string where "Branches_loading = ''MVA''"
definition Branches_ratea :: string where "Branches_ratea = ''RATEA''"
definition Branches_rateb :: string where "Branches_rateb = ''RATEB''"
definition Branches_ratec :: string where "Branches_ratec = ''RATEC''"
definition Branches_from_bus :: string where "Branches_from_bus = ''FROMNUMBER''"
definition Branches_to_bus :: string where "Branches_to_bus = ''TONUMBER''"

definition Tx3_wind1 :: string where "Tx3_wind1 = ''WIND1NUMBER''"
definition Tx3_wind2 :: string where "Tx3_wind2 = ''WIND2NUMBER''"
definition Tx3_wind3 :: string where "Tx3_wind3 = ''WIND3NUMBER''"
definition Tx3_this_winding :: string where "Tx3_this_winding = ''WNDBUSNUMBER''"

definition Machines_qgen :: string where "Machines_qgen = ''QGEN''"

definition Excel_voltage_steady :: string where "Excel_voltage_steady = ''V Steady''"
definition Excel_voltage_step :: string where "Excel_voltage_step = ''V Step''"
definition Excel_convergence :: string where "Excel_convergence = ''Convergent''"
definition Excel_message :: string where "Excel_message = ''Description''"
definition Excel_tx2_loading :: string where "Excel_tx2_loading = ''2 Winding Loading''"
definition Excel_tx3_loading :: string where "Excel_tx3_loading = ''3 Winding Loading''"
definition Excel_circuit_loading :: string where "Excel_circuit_loading = ''Circuit Loading''"

subsection \<open>The load-flow engine (psspy)\<close>

text \<open>
  The engine is external.  Each API function the program calls is a field: a function that
  changes the network takes the engine state and returns its error code and the new state,
  a data retrieval reads the state and returns its error code and the arrays asked for
  (string arrays are left out: no check reads them).  The arguments are those the program
  varies: \<open>sid\<close> and \<open>flag\<close> for the retrievals, the tap, shunt and flat-start options for
  the solvers, the element keys and the new status for the switching functions.
\<close>

record 'w psspy =
  case_load :: "string \<Rightarrow> 'w \<Rightarrow> int \<times> 'w"
  solution_parameters_4 :: "'w \<Rightarrow> int \<times> 'w"
  bsys :: "int list \<Rightarrow> 'w \<Rightarrow> int \<times> 'w"
  fnsl :: "int \<Rightarrow> int \<Rightarrow> bool \<Rightarrow> 'w \<Rightarrow> int \<times> 'w"
  fdns :: "int \<Rightarrow> int \<Rightarrow> bool \<Rightarrow> 'w \<Rightarrow> int \<times> 'w"
  solved :: "'w \<Rightarrow> int"
  island :: "'w \<Rightarrow> int \<times> 'w"
  abusint :: "int \<Rightarrow> int \<Rightarrow> 'w \<Rightarrow> int \<times> int list \<times> int list"
  abuschar :: "int \<Rightarrow> int \<Rightarrow> 'w \<Rightarrow> int"
  abusreal :: "int \<Rightarrow> int \<Rightarrow> 'w \<Rightarrow> int \<times> real list \<times> real list"
  abrnint :: "int \<Rightarrow> int \<Rightarrow> 'w \<Rightarrow> int \<times> int list \<times> int list \<times> int list"
  abrnchar :: "int \<Rightarrow> int \<Rightarrow> 'w \<Rightarrow> int"
  abrnreal :: "int \<Rightarrow> int \<Rightarrow> 'w \<Rightarrow> int \<times> real list \<times> real list \<times> real list \<times> real list"
  awndint :: "int \<Rightarrow> int \<Rightarrow> 'w
                \<Rightarrow> int \<times> int list \<times> int list \<times> int list \<times> int list \<times> int list"
  awndchar :: "int \<Rightarrow> int \<Rightarrow> 'w \<Rightarrow> int"
  awndreal :: "int \<Rightarrow> int \<Rightarrow> 'w \<Rightarrow> int \<times> real list \<times> real list \<times> real list \<times> real list"
  atr3int :: "int \<Rightarrow> int \<Rightarrow> 'w \<Rightarrow> int \<times> int list \<times> int list \<times> int list \<times> int list"
  atr3char :: "int \<Rightarrow> int \<Rightarrow> 'w \<Rightarrow> int"
  afxshuntint :: "int \<Rightarrow> int \<Rightarrow> 'w \<Rightarrow> int \<times> int list \<times> int list"
  afxshuntchar :: "int \<Rightarrow> int \<Rightarrow> 'w \<Rightarrow> int"
  aswshint :: "int \<Rightarrow> int \<Rightarrow> 'w \<Rightarrow> int \<times> int list \<times> int list"
  aswshchar :: "int \<Rightarrow> int \<Rightarrow> 'w \<Rightarrow> int"
  amachint :: "int \<Rightarrow> int \<Rightarrow> 'w \<Rightarrow> int \<times> int list \<times> int list"
  amachchar :: "int \<Rightarrow> int \<Rightarrow> 'w \<Rightarrow> int"
  amachreal :: "int \<Rightarrow> int \<Rightarrow> 'w \<Rightarrow> int \<times> real list"
  branch_chng :: "int \<Rightarrow> int \<Rightarrow> string \<Rightarrow> int \<Rightarrow> 'w \<Rightarrow> int \<times> 'w"
  two_winding_chng_4 :: "int \<Rightarrow> int \<Rightarrow> string \<Rightarrow> int \<Rightarrow> 'w \<Rightarrow> int \<times> 'w"
  three_wnd_imped_chng_3 :: "int \<Rightarrow> int \<Rightarrow> int \<Rightarrow> string \<Rightarrow> int \<Rightarrow> 'w \<Rightarrow> int \<times> 'w"
  bus_chng_3 :: "int \<Rightarrow> int \<Rightarrow> 'w \<Rightarrow> int \<times> 'w"
  shunt_chng :: "int \<Rightarrow> string \<Rightarrow> int \<Rightarrow> 'w \<Rightarrow> int \<times> 'w"
  switched_shunt_chng_3 :: "int \<Rightarrow> int \<Rightarrow> 'w \<Rightarrow> int \<times> 'w"
  plant_chng :: "int \<Rightarrow> int \<Rightarrow> real \<Rightarrow> 'w \<Rightarrow> int \<times> 'w"
  machine_chng_2 :: "int \<Rightarrow> string \<Rightarrow> real \<Rightarrow> 'w \<Rightarrow> int \<times> 'w"

subsection \<open>Busbar data (class BusData)\<close>

record bus_data =
  bd_sid :: int
  bd_flag :: int
  df_state :: frame
  df_voltage_steady :: frame
  df_voltage_step :: frame

fun map_exn :: "('a \<Rightarrow> exn + 'b) \<Rightarrow> 'a list \<Rightarrow> exn + 'b list" where
  "map_exn f [] = Inr []"
| "map_exn f (x # xs) =
     (case f x of
        Inl e \<Rightarrow> Inl e
      | Inr y \<Rightarrow> (case map_exn f xs of Inl e \<Rightarrow> Inl e | Inr ys \<Rightarrow> Inr (y # ys)))"

definition BusData_get_voltages :: "'w psspy \<Rightarrow> bus_data \<Rightarrow> 'w \<Rightarrow> exn + (real list \<times> real list)" where
  "BusData_get_voltages p bd w =
     (case abusreal p (bd_sid bd) (bd_flag bd) w of
        (ierr_real, nominal, voltage) \<Rightarrow>
          if ierr_real > 0 then Inl SyntaxError else Inr (nominal, voltage))"

text \<open>\<^verbatim>\<open>BusData.add_voltage_limits\<close>: the limits of each band are written to the buses
  whose nominal voltage is above the lower and at most the upper end of the band.\<close>

definition add_band_limits :: "(real \<times> real) \<times> (real \<times> real) \<Rightarrow> frame \<Rightarrow> frame" where
  "add_band_limits =
     (\<lambda>((nom_lower, nom_upper), (lower, upper)) d.
        let msk = map (\<lambda>x. flt (Num nom_lower) x \<and> fle x (Num nom_upper))
                    (column_or_nan d Busbars_nominal)
        in loc_mask_set (loc_mask_set d msk Busbars_lower_limit (Num lower))
             msk Busbars_upper_limit (Num upper))"

definition BusData_add_voltage_limits :: "frame \<Rightarrow> frame" where
  "BusData_add_voltage_limits df =
     fold add_band_limits EirGridThresholds_steady_state_limits df"

text \<open>\<^verbatim>\<open>BusData.update\<close>: without a name the three tables are rebuilt and the base-case
  column added; with a name the bus states are stored in the column of that name.\<close>

definition BusData_update :: "'w psspy \<Rightarrow> bus_data \<Rightarrow> string option \<Rightarrow> 'w \<Rightarrow> exn + bus_data" where
  "BusData_update p bd cont_name w =
     (case abusint p (bd_sid bd) (bd_flag bd) w of
        (ierr_int, numbers, types) \<Rightarrow>
          let ierr_char = abuschar p (bd_sid bd) (bd_flag bd) w in
          if ierr_int > 0 \<or> ierr_char > 0 then Inl SyntaxError
          else and_then (BusData_get_voltages p bd w) (\<lambda>(nominal, voltage).
            let df = mk_frame (map IntL numbers)
                       [(Busbars_bus, ints numbers), (Busbars_state, ints types),
                        (Busbars_nominal, reals nominal), (Busbars_voltage, reals voltage)]
            in (case cont_name of
                  None \<Rightarrow>
                    let st = select_columns df [Busbars_bus, Busbars_nominal, Busbars_state];
                        vs = select_columns df [Busbars_bus, Busbars_nominal, Busbars_voltage];
                        steady = BusData_add_voltage_limits vs
                    in Inr (bd\<lparr>df_state :=
                                   st\<lparr>df_columns := (df_columns st)
                                      (Contingency_bc := df_columns st Busbars_state)\<rparr>,
                                 df_voltage_steady :=
                                   steady\<lparr>df_columns := (df_columns steady)
                                      (Contingency_bc := df_columns steady Busbars_voltage)\<rparr>,
                                 df_voltage_step :=
                                   vs\<lparr>df_columns := (df_columns vs)
                                      (Contingency_bc := df_columns vs Busbars_voltage)\<rparr>\<rparr>)
                | Some c \<Rightarrow>
                    and_then (getitem df Busbars_state) (\<lambda>s.
                      Inr (bd\<lparr>df_state := setitem_series (df_state bd) c s\<rparr>)))))"

definition BusData_init :: "'w psspy \<Rightarrow> int \<Rightarrow> int \<Rightarrow> 'w \<Rightarrow> exn + bus_data" where
  "BusData_init p flag sid w =
     BusData_update p \<lparr>bd_sid = sid, bd_flag = flag, df_state = empty_frame,
                       df_voltage_steady = empty_frame, df_voltage_step = empty_frame\<rparr> None w"

definition BusData_add_islanded_busbars :: "bus_data \<Rightarrow> frame \<Rightarrow> string \<Rightarrow> exn + bus_data" where
  "BusData_add_islanded_busbars bd buses cont_name =
     and_then (getitem buses Busbars_state) (\<lambda>s.
       Inr (bd\<lparr>df_state := setitem_series (df_state bd) cont_name s\<rparr>))"

text \<open>\<^verbatim>\<open>BusData.update_voltages\<close>: not-a-number in every row on non-convergence, the
  voltages of the engine otherwise.\<close>

definition BusData_update_voltages ::
    "'w psspy \<Rightarrow> bus_data \<Rightarrow> string \<Rightarrow> bool \<Rightarrow> bool \<Rightarrow> 'w \<Rightarrow> exn + bus_data" where
  "BusData_update_voltages p bd cont_name voltage_step non_convergence w =
     (if non_convergence then
        (if voltage_step
         then Inr (bd\<lparr>df_voltage_step := setitem_scalar (df_voltage_step bd) cont_name NaN\<rparr>)
         else Inr (bd\<lparr>df_voltage_steady := setitem_scalar (df_voltage_steady bd) cont_name NaN\<rparr>))
      else and_then (BusData_get_voltages p bd w) (\<lambda>(_, latest_voltages).
        if voltage_step
        then and_then (setitem_list (df_voltage_step bd) cont_name (reals latest_voltages))
               (\<lambda>df. Inr (bd\<lparr>df_voltage_step := df\<rparr>))
        else and_then (setitem_list (df_voltage_steady bd) cont_name (reals latest_voltages))
               (\<lambda>df. Inr (bd\<lparr>df_voltage_steady := df\<rparr>))))"

definition rows_to_ignore :: "label list" where
  "rows_to_ignore = [StrL Contingency_v_step_lbl, StrL Contingency_compliant]"

text \<open>The condition of the steady-state branch for one contingency, row by row.\<close>

definition steady_condition :: "frame \<Rightarrow> string \<Rightarrow> exn + bool list" where
  "steady_condition df cont =
     and_then (getitem df cont) (\<lambda>v.
     and_then (getitem df Busbars_upper_limit) (\<lambda>u.
     and_then (getitem df Busbars_lower_limit) (\<lambda>l.
       Inr (map (\<lambda>(x, hi, lo). fle x hi \<and> fle lo x)
              (zip (map snd v) (zip (map snd u) (map snd l)))))))"

text \<open>\<^verbatim>\<open>BusData.check_compliance\<close>.  The result is the table of one flag per name; the
  flags are also written to the row "Compliant" of the voltage table (and the limit to the
  row "Voltage Step Limit").\<close>

definition BusData_check_compliance ::
    "bus_data \<Rightarrow> string list \<Rightarrow> real option \<Rightarrow> exn + (bus_data \<times> (string \<times> cell) list)" where
  "BusData_check_compliance bd cont_names voltage_step_limit =
     (case voltage_step_limit of
        None \<Rightarrow>
          and_then (map_exn (\<lambda>cont. and_then (steady_condition (df_voltage_steady bd) cont)
                                        (\<lambda>cond. Inr (cont, list_all id cond))) cont_names)
            (\<lambda>compliance.
               let df = fold (\<lambda>(key, value) d.
                               loc_set d (StrL Contingency_compliant) key (Flag value))
                          compliance (df_voltage_steady bd)
               in and_then (loc_get df (StrL Contingency_compliant) cont_names)
                    (\<lambda>df_compliance. Inr (bd\<lparr>df_voltage_steady := df\<rparr>, df_compliance)))
      | Some limit \<Rightarrow>
          let bad_df = map (\<lambda>l. l \<in> set rows_to_ignore) (df_index (df_voltage_step bd)) in
          and_then (loc_mask (df_voltage_step bd) (map Not bad_df) cont_names) (\<lambda>left.
          and_then (getitem (df_voltage_step bd) Busbars_voltage) (\<lambda>base.
            let df_volt_step = map (\<lambda>(c, s). (c, map (\<lambda>(l, x). (l, fabs x)) (sub_axis0 s base))) left;
                compliance = map (\<lambda>(c, s). (c, list_all (\<lambda>(l, x). fle x (Num limit)) s))
                               df_volt_step;
                df = fold (\<lambda>(key, value) d.
                            loc_set (loc_set d (StrL Contingency_compliant) key (Flag value))
                              (StrL Contingency_v_step_lbl) key (Num limit))
                       compliance (df_voltage_step bd)
            in and_then (loc_get df (StrL Contingency_compliant) cont_names)
                 (\<lambda>df_compliance. Inr (bd\<lparr>df_voltage_step := df\<rparr>, df_compliance)))))"

text \<open>The flag that the step-change branch computes for one contingency: the rows that
  are not ignored, minus the base voltages (aligned on the union of the labels), in
  absolute value, each compared with the limit.\<close>

definition step_compliant :: "frame \<Rightarrow> string \<Rightarrow> real \<Rightarrow> bool" where
  "step_compliant df cont limit =
     list_all (\<lambda>(l, x). fle x (Num limit))
       (map (\<lambda>(l, x). (l, fabs x))
          (sub_axis0
             (map snd (filter fst (zip (map (\<lambda>l. l \<notin> set rows_to_ignore) (df_index df))
                                      (zip (df_index df) (column_or_nan df cont)))))
             (zip (df_index df) (column_or_nan df Busbars_voltage))))"

text \<open>Every bus that is not ignored has a voltage at or below its upper limit.\<close>

definition upper_limit_ok :: "frame \<Rightarrow> string \<Rightarrow> int list \<Rightarrow> bool" where
  "upper_limit_ok df cont ignore =
     list_all (\<lambda>(num, x, hi). cell_isin num ignore \<or> fle x hi)
       (zip (column_or_nan df Busbars_bus)
          (zip (column_or_nan df cont) (column_or_nan df Busbars_upper_limit)))"

text \<open>Every bus that is not ignored has a voltage between its lower and its upper limit
  (the steady-state band of the specification).\<close>

definition band_ok :: "frame \<Rightarrow> string \<Rightarrow> int list \<Rightarrow> bool" where
  "band_ok df cont ignore =
     list_all (\<lambda>(num, x, lo, hi). cell_isin num ignore \<or> (fle lo x \<and> fle x hi))
       (zip (column_or_nan df Busbars_bus)
          (zip (column_or_nan df cont)
             (zip (column_or_nan df Busbars_lower_limit)
                (column_or_nan df Busbars_upper_limit))))"

text \<open>The first label with the largest value, not-a-number skipped.\<close>

fun nanargmax :: "series \<Rightarrow> (label \<times> real) option" where
  "nanargmax [] = None"
| "nanargmax ((l, x) # s) =
     (case (to_float x, nanargmax s) of
        (None, r) \<Rightarrow> r
      | (Some a, None) \<Rightarrow> Some (l, a)
      | (Some a, Some (l', b)) \<Rightarrow> if b \<le> a then Some (l, a) else Some (l', b))"

text \<open>\<^verbatim>\<open>BusData.check_within_limits\<close>: stores the latest steady-state voltages, then
  compares them with the upper limit at every bus that is not ignored; also returns the
  bus of the largest voltage and that voltage.\<close>

definition BusData_check_within_limits ::
    "'w psspy \<Rightarrow> bus_data \<Rightarrow> string \<Rightarrow> int list \<Rightarrow> 'w
       \<Rightarrow> exn + (bus_data \<times> bool \<times> label option \<times> cell)" where
  "BusData_check_within_limits p bd cont_name ignore w =
     and_then (BusData_update_voltages p bd cont_name False False w) (\<lambda>bd1.
     and_then (getitem (df_voltage_steady bd1) Busbars_bus) (\<lambda>num.
     and_then (loc_mask (df_voltage_steady bd1) (map (\<lambda>(l, x). \<not> cell_isin x ignore) num)
                 [cont_name, Busbars_upper_limit]) (\<lambda>df_subset.
       (case df_subset of
          [(_, v), (_, u)] \<Rightarrow>
            let within_limits = list_all (\<lambda>(x, hi). fle x hi) (zip (map snd v) (map snd u))
            in if v = [] then Inl ValueError
               else Inr (bd1, within_limits, map_option fst (nanargmax v),
                         (case nanargmax v of None \<Rightarrow> NaN | Some (_, m) \<Rightarrow> Num m))
        | _ \<Rightarrow> Inl KeyError))))"

subsection \<open>Branch and transformer data (classes BranchData, Tx3WndData, Tx3Data)\<close>

definition range_index :: "nat \<Rightarrow> label list" where
  "range_index n = map (\<lambda>i. IntL (int i)) [0..<n]"

record branch_data =
  br_tx :: bool
  br_flag :: int
  br_sid :: int
  br_df_status :: frame
  br_df_loading :: frame

text \<open>\<^verbatim>\<open>BranchData.update\<close>: a retrieval error raises ValueError.\<close>

definition BranchData_update ::
    "'w psspy \<Rightarrow> branch_data \<Rightarrow> string option \<Rightarrow> 'w \<Rightarrow> exn + branch_data" where
  "BranchData_update p br cont_name w =
     (case abrnint p (br_sid br) (br_flag br) w of
        (ierr_int, from_bus, to_bus, status) \<Rightarrow>
     (case abrnreal p (br_sid br) (br_flag br) w of
        (ierr_real, ratea, rateb, ratec, loading) \<Rightarrow>
          let ierr_char = abrnchar p (br_sid br) (br_flag br) w in
          if ierr_int > 0 \<or> ierr_char > 0 \<or> ierr_real > 0 then Inl ValueError
          else
            let complete_df = mk_frame (range_index (length from_bus))
                  [(Branches_from_bus, ints from_bus), (Branches_to_bus, ints to_bus),
                   (Branches_status, ints status), (Branches_ratea, reals ratea),
                   (Branches_rateb, reals rateb), (Branches_ratec, reals ratec),
                   (Branches_loading, reals loading)]
            in (case cont_name of
                  None \<Rightarrow>
                    let st = select_columns complete_df
                               [Branches_from_bus, Branches_to_bus, Branches_status];
                        ld = select_columns complete_df
                               [Branches_from_bus, Branches_to_bus, Branches_ratea,
                                Branches_rateb, Branches_ratec, Branches_loading]
                    in Inr (br\<lparr>br_df_status :=
                                   st\<lparr>df_columns := (df_columns st)
                                      (Contingency_bc := df_columns st Branches_status)\<rparr>,
                                 br_df_loading :=
                                   ld\<lparr>df_columns := (df_columns ld)
                                      (Contingency_bc := df_columns ld Branches_loading)\<rparr>\<rparr>)
                | Some c \<Rightarrow>
                    and_then (getitem complete_df Branches_status) (\<lambda>s.
                    and_then (getitem complete_df Branches_loading) (\<lambda>l.
                      Inr (br\<lparr>br_df_status := setitem_series (br_df_status br) c s,
                               br_df_loading := setitem_series (br_df_loading br) c l\<rparr>))))))"

definition BranchData_init :: "'w psspy \<Rightarrow> int \<Rightarrow> bool \<Rightarrow> int \<Rightarrow> 'w \<Rightarrow> exn + branch_data" where
  "BranchData_init p flag tx sid w =
     (let flag' = (if tx then (if flag \<noteq> 5 \<and> flag \<noteq> 6 then 6 else flag)
                   else (if flag \<noteq> 1 \<and> flag \<noteq> 2 then 2 else flag))
      in BranchData_update p \<lparr>br_tx = tx, br_flag = flag', br_sid = sid,
                               br_df_status = empty_frame, br_df_loading = empty_frame\<rparr> None w)"

text \<open>\<^verbatim>\<open>BranchData.switch\<close>, reached from \<^verbatim>\<open>change_state\<close> with the status of the
  contingency row (the program never asks for a restore).\<close>

definition BranchData_switch :: "'w psspy \<Rightarrow> branch_data \<Rightarrow> branch_row \<Rightarrow> 'w \<Rightarrow> bool \<times> 'w" where
  "BranchData_switch p br row w =
     (case row of (bus1, bus2, ckt, status) \<Rightarrow>
        (case (if br_tx br then two_winding_chng_4 p else branch_chng p) bus1 bus2 ckt status w of
           (ierr, w') \<Rightarrow> (\<not> ierr > 0, w')))"

text \<open>The loading condition of \<^verbatim>\<open>BranchData.check_compliance\<close> for one contingency:
  loading below the rating, or the rating equal to the threshold.\<close>

definition branch_condition :: "frame \<Rightarrow> string \<Rightarrow> exn + bool list" where
  "branch_condition df cont =
     and_then (getitem df cont) (\<lambda>l.
     and_then (getitem df Contingency_rate_for_checking) (\<lambda>r.
       Inr (map (\<lambda>(x, rate). flt x rate \<or> feq (Num EirGridThresholds_rating_threshold) rate)
              (zip (map snd l) (map snd r)))))"

definition BranchData_check_compliance ::
    "branch_data \<Rightarrow> string list \<Rightarrow> exn + (branch_data \<times> (string \<times> cell) list)" where
  "BranchData_check_compliance br cont_names =
     and_then (getitem (br_df_loading br) Contingency_rate_for_checking) (\<lambda>_.
       let df_loading = setitem_scalar (br_df_loading br) ''Threshold''
                          (Num EirGridThresholds_rating_threshold)
       in and_then (map_exn (\<lambda>cont. and_then (branch_condition df_loading cont)
                                        (\<lambda>cond. Inr (cont, list_all id cond))) cont_names)
            (\<lambda>compliance.
               let df = fold (\<lambda>(key, value) d.
                               loc_set d (StrL Contingency_compliant) key (Flag value))
                          compliance df_loading
               in and_then (loc_get df (StrL Contingency_compliant) cont_names)
                    (\<lambda>df_compliance. Inr (br\<lparr>br_df_loading := df\<rparr>, df_compliance))))"

record tx3wnd_data =
  tw_flag :: int
  tw_sid :: int
  tw_df_status :: frame
  tw_df_loading :: frame

definition Tx3WndData_update ::
    "'w psspy \<Rightarrow> tx3wnd_data \<Rightarrow> string option \<Rightarrow> 'w \<Rightarrow> exn + tx3wnd_data" where
  "Tx3WndData_update p tw cont_name w =
     (case awndint p (tw_sid tw) (tw_flag tw) w of
        (ierr_int, this_winding, wind1, wind2, wind3, status) \<Rightarrow>
     (case awndreal p (tw_sid tw) (tw_flag tw) w of
        (ierr_real, ratea, rateb, ratec, loading) \<Rightarrow>
          let ierr_char = awndchar p (tw_sid tw) (tw_flag tw) w in
          if ierr_int > 0 \<or> ierr_char > 0 \<or> ierr_real > 0 then Inl ValueError
          else
            let combined_df = mk_frame (range_index (length this_winding))
                  [(Tx3_this_winding, ints this_winding), (Tx3_wind1, ints wind1),
                   (Tx3_wind2, ints wind2), (Tx3_wind3, ints wind3),
                   (Branches_status, ints status), (Branches_ratea, reals ratea),
                   (Branches_rateb, reals rateb), (Branches_ratec, reals ratec),
                   (Branches_loading, reals loading)]
            in (case cont_name of
                  None \<Rightarrow>
                    let st = select_columns combined_df
                               [Tx3_this_winding, Tx3_wind1, Tx3_wind2, Tx3_wind3, Branches_status];
                        ld = select_columns combined_df
                               [Tx3_this_winding, Tx3_wind1, Tx3_wind2, Tx3_wind3, Branches_ratea,
                                Branches_rateb, Branches_ratec, Branches_loading]
                    in Inr (tw\<lparr>tw_df_status :=
                                   st\<lparr>df_columns := (df_columns st)
                                      (Contingency_bc := df_columns st Branches_status)\<rparr>,
                                 tw_df_loading :=
                                   ld\<lparr>df_columns := (df_columns ld)
                                      (Contingency_bc := df_columns ld Branches_loading)\<rparr>\<rparr>)
                | Some c \<Rightarrow>
                    and_then (getitem combined_df Branches_status) (\<lambda>s.
                    and_then (getitem combined_df Branches_loading) (\<lambda>l.
                      Inr (tw\<lparr>tw_df_status := setitem_series (tw_df_status tw) c s,
                               tw_df_loading := setitem_series (tw_df_loading tw) c l\<rparr>))))))"

definition Tx3WndData_init :: "'w psspy \<Rightarrow> int \<Rightarrow> 'w \<Rightarrow> exn + tx3wnd_data" where
  "Tx3WndData_init p sid w =
     Tx3WndData_update p \<lparr>tw_flag = 3, tw_sid = sid, tw_df_status = empty_frame,
                          tw_df_loading = empty_frame\<rparr> None w"

text \<open>The loading condition of \<^verbatim>\<open>Tx3WndData.check_compliance\<close>: loading below the
  rating, or the rating at most the threshold.\<close>

definition tx3wnd_condition :: "frame \<Rightarrow> string \<Rightarrow> exn + bool list" where
  "tx3wnd_condition df cont =
     and_then (getitem df cont) (\<lambda>l.
     and_then (getitem df Contingency_rate_for_checking) (\<lambda>r.
       Inr (map (\<lambda>(x, rate). flt x rate \<or> fle rate (Num EirGridThresholds_rating_threshold))
              (zip (map snd l) (map snd r)))))"

definition Tx3WndData_check_compliance ::
    "tx3wnd_data \<Rightarrow> string list \<Rightarrow> exn + (tx3wnd_data \<times> (string \<times> cell) list)" where
  "Tx3WndData_check_compliance tw cont_names =
     and_then (getitem (tw_df_loading tw) Contingency_rate_for_checking) (\<lambda>_.
     and_then (map_exn (\<lambda>cont. and_then (tx3wnd_condition (tw_df_loading tw) cont)
                                  (\<lambda>cond. Inr (cont, list_all id cond))) cont_names)
       (\<lambda>compliance.
          let df = fold (\<lambda>(key, value) d.
                          loc_set d (StrL Contingency_compliant) key (Flag value))
                     compliance (tw_df_loading tw)
          in and_then (loc_get df (StrL Contingency_compliant) cont_names)
               (\<lambda>df_compliance. Inr (tw\<lparr>tw_df_loading := df\<rparr>, df_compliance))))"

record tx3_data =
  t3_flag :: int
  t3_sid :: int
  t3_df :: frame

definition Tx3Data_update :: "'w psspy \<Rightarrow> tx3_data \<Rightarrow> string option \<Rightarrow> 'w \<Rightarrow> exn + tx3_data" where
  "Tx3Data_update p t3 cont_name w =
     (case atr3int p (t3_sid t3) (t3_flag t3) w of
        (ierr_int, wind1, wind2, wind3, status) \<Rightarrow>
          let ierr_char = atr3char p (t3_sid t3) (t3_flag t3) w in
          if ierr_int > 0 \<or> ierr_char > 0 then Inl ValueError
          else
            let combined_df = mk_frame (range_index (length wind1))
                  [(Tx3_wind1, ints wind1), (Tx3_wind2, ints wind2), (Tx3_wind3, ints wind3),
                   (Branches_status, ints status)]
            in (case cont_name of
                  None \<Rightarrow>
                    Inr (t3\<lparr>t3_df := combined_df\<lparr>df_columns := (df_columns combined_df)
                                (Contingency_bc := df_columns combined_df Branches_status)\<rparr>\<rparr>)
                | Some c \<Rightarrow>
                    and_then (getitem combined_df Branches_status) (\<lambda>s.
                      Inr (t3\<lparr>t3_df := setitem_series (t3_df t3) c s\<rparr>))))"

definition Tx3Data_init :: "'w psspy \<Rightarrow> int \<Rightarrow> 'w \<Rightarrow> exn + tx3_data" where
  "Tx3Data_init p sid w =
     Tx3Data_update p \<lparr>t3_flag = 2, t3_sid = sid, t3_df = empty_frame\<rparr> None w"

definition Tx3Data_switch :: "'w psspy \<Rightarrow> tx3_row \<Rightarrow> 'w \<Rightarrow> bool \<times> 'w" where
  "Tx3Data_switch p row w =
     (case row of (bus1, bus2, bus3, ckt, status) \<Rightarrow>
        (case three_wnd_imped_chng_3 p bus1 bus2 bus3 ckt status w of
           (ierr, w') \<Rightarrow> (\<not> ierr > 0, w')))"

definition BusData_switch :: "'w psspy \<Rightarrow> busbar_row \<Rightarrow> 'w \<Rightarrow> bool \<times> 'w" where
  "BusData_switch p row w =
     (case row of (bus, state) \<Rightarrow>
        (case bus_chng_3 p bus state w of (ierr, w') \<Rightarrow> (\<not> ierr > 0, w')))"

subsection \<open>Shunt and machine data (classes ShuntData, MachineData)\<close>

record shunt_data =
  sh_fixed :: bool
  sh_flag :: int
  sh_sid :: int
  sh_df_status :: frame

text \<open>\<^verbatim>\<open>ShuntData.update\<close>: nothing is stored when the engine lists no shunt.\<close>

definition ShuntData_update :: "'w psspy \<Rightarrow> shunt_data \<Rightarrow> string option \<Rightarrow> 'w \<Rightarrow> exn + shunt_data" where
  "ShuntData_update p sh cont_name w =
     (case (if sh_fixed sh then afxshuntint p else aswshint p) (sh_sid sh) (sh_flag sh) w of
        (ierr_int, bus, status) \<Rightarrow>
          let ierr_char = (if sh_fixed sh then afxshuntchar p else aswshchar p)
                            (sh_sid sh) (sh_flag sh) w in
          if ierr_int > 0 \<or> ierr_char > 0 then Inl ValueError
          else
            let complete_df = mk_frame (range_index (length bus))
                  [(Busbars_bus, ints bus), (Branches_status, ints status)]
            in if df_empty complete_df then Inr sh
               else (case cont_name of
                  None \<Rightarrow>
                    Inr (sh\<lparr>sh_df_status := complete_df\<lparr>df_columns := (df_columns complete_df)
                                (Contingency_bc := df_columns complete_df Branches_status)\<rparr>\<rparr>)
                | Some c \<Rightarrow>
                    and_then (getitem complete_df Branches_status) (\<lambda>s.
                      Inr (sh\<lparr>sh_df_status := setitem_series (sh_df_status sh) c s\<rparr>))))"

definition ShuntData_init :: "'w psspy \<Rightarrow> bool \<Rightarrow> int \<Rightarrow> 'w \<Rightarrow> exn + shunt_data" where
  "ShuntData_init p fixed sid w =
     ShuntData_update p \<lparr>sh_fixed = fixed, sh_flag = 4, sh_sid = sid,
                         sh_df_status = empty_frame\<rparr> None w"

definition ShuntData_switch :: "'w psspy \<Rightarrow> shunt_data \<Rightarrow> shunt_row \<Rightarrow> 'w \<Rightarrow> bool \<times> 'w" where
  "ShuntData_switch p sh row w =
     (case row of (bus, ckt, status) \<Rightarrow>
        (case (if sh_fixed sh then shunt_chng p bus ckt status w
               else switched_shunt_chng_3 p bus status w) of
           (ierr, w') \<Rightarrow> (\<not> ierr > 0, w')))"

record machine_data =
  mc_flag :: int
  mc_sid :: int
  mc_df_loading :: frame

text \<open>\<^verbatim>\<open>MachineData.update\<close>; its error test is
  \<^verbatim>\<open>ierr_int > 0 or ierr_char > 0 and ierr_real > 0\<close>.\<close>

definition MachineData_update ::
    "'w psspy \<Rightarrow> machine_data \<Rightarrow> string option \<Rightarrow> 'w \<Rightarrow> exn + machine_data" where
  "MachineData_update p mc cont_name w =
     (case amachint p (mc_sid mc) (mc_flag mc) w of
        (ierr_int, bus, state) \<Rightarrow>
     (case amachreal p (mc_sid mc) (mc_flag mc) w of
        (ierr_real, qgen) \<Rightarrow>
          let ierr_char = amachchar p (mc_sid mc) (mc_flag mc) w in
          if ierr_int > 0 \<or> (ierr_char > 0 \<and> ierr_real > 0) then Inl SyntaxError
          else
            let df = mk_frame (range_index (length bus))
                  [(Busbars_bus, ints bus), (Branches_status, ints state),
                   (Machines_qgen, reals qgen)]
            in (case cont_name of
                  None \<Rightarrow>
                    Inr (mc\<lparr>mc_df_loading := df\<lparr>df_columns := (df_columns df)
                                (Contingency_bc := df_columns df Machines_qgen)\<rparr>\<rparr>)
                | Some c \<Rightarrow>
                    and_then (getitem df Machines_qgen) (\<lambda>s.
                      Inr (mc\<lparr>mc_df_loading := setitem_series (mc_df_loading mc) c s\<rparr>)))))"

definition MachineData_init :: "'w psspy \<Rightarrow> int \<Rightarrow> 'w \<Rightarrow> exn + machine_data" where
  "MachineData_init p sid w =
     MachineData_update p \<lparr>mc_flag = 4, mc_sid = sid, mc_df_loading = empty_frame\<rparr> None w"

definition MachineData_change_target :: "'w psspy \<Rightarrow> int \<Rightarrow> real \<Rightarrow> int \<Rightarrow> 'w \<Rightarrow> bool \<times> 'w" where
  "MachineData_change_target p bus_num target target_bus w =
     (case plant_chng p bus_num target_bus target w of (ierr, w') \<Rightarrow> (\<not> ierr > 0, w'))"

definition MachineData_change_output :: "'w psspy \<Rightarrow> int \<Rightarrow> string \<Rightarrow> real \<Rightarrow> 'w \<Rightarrow> bool \<times> 'w" where
  "MachineData_change_output p bus_num machine_id q_target w =
     (case machine_chng_2 p bus_num machine_id q_target w of (ierr, w') \<Rightarrow> (\<not> ierr > 0, w'))"

subsection \<open>Engine control (class PsseControl)\<close>

record psse_control =
  pc_sav :: string
  pc_sid :: int

text \<open>\<^verbatim>\<open>PsseControl.load_data_case\<close>: loads the given case, or reloads the stored one.\<close>

definition PsseControl_load_data_case ::
    "'w psspy \<Rightarrow> psse_control \<Rightarrow> string option \<Rightarrow> 'w \<Rightarrow> (exn + psse_control) \<times> 'w" where
  "PsseControl_load_data_case p pc pth_sav w =
     (let pc1 = (case pth_sav of None \<Rightarrow> pc | Some pth \<Rightarrow> pc\<lparr>pc_sav := pth\<rparr>)
      in case case_load p (pc_sav pc1) w of
           (ierr, w1) \<Rightarrow>
             if ierr > 0 then (Inl ValueError, w1)
             else (case solution_parameters_4 p w1 of (_, w2) \<Rightarrow> (Inr pc1, w2)))"

definition PsseControl_define_bus_subsystem ::
    "'w psspy \<Rightarrow> psse_control \<Rightarrow> int list \<Rightarrow> 'w \<Rightarrow> (exn + psse_control) \<times> 'w" where
  "PsseControl_define_bus_subsystem p pc busbars0 w =
     (case bsys p busbars0 w of
        (ierr, w1) \<Rightarrow>
          if ierr = 1 then (Inl SyntaxError, w1) else (Inr (pc\<lparr>pc_sid := PSSE_sid\<rparr>), w1))"

definition PsseControl_check_convergent_load_flow :: "'w psspy \<Rightarrow> 'w \<Rightarrow> bool" where
  "PsseControl_check_convergent_load_flow p w = (solved p w = 0)"

text \<open>\<^verbatim>\<open>PsseControl.get_islanded_busbars\<close>: the in-service buses are listed, the engine
  disconnects the islands, the in-service buses are listed again, and the buses that occur
  in one listing only are returned.\<close>

definition PsseControl_get_islanded_busbars :: "'w psspy \<Rightarrow> 'w \<Rightarrow> (exn + frame) \<times> 'w" where
  "PsseControl_get_islanded_busbars p w =
     (case BusData_init p 1 (- 1) w of
        Inl e \<Rightarrow> (Inl e, w)
      | Inr busbars_initial \<Rightarrow>
          (case island p w of
             (ierr, w1) \<Rightarrow>
               if ierr = - 1 then (Inl IOError, w1)
               else (case BusData_init p 1 (- 1) w1 of
                       Inl e \<Rightarrow> (Inl e, w1)
                     | Inr busbars_final \<Rightarrow>
                         (Inr (drop_duplicates
                                 (concat_rows (df_state busbars_initial) (df_state busbars_final))
                                 Busbars_bus), w1))))"

text \<open>\<^verbatim>\<open>PsseControl.run_load_flow\<close>: error codes 1, 5 and any unknown positive code
  raise SyntaxError, 2 raises IOError, 3 and 4 (islands without a swing bus) return
  non-convergence with the islanded buses.\<close>

definition PsseControl_run_load_flow ::
    "'w psspy \<Rightarrow> bool \<Rightarrow> bool \<Rightarrow> 'w \<Rightarrow> (exn + (bool \<times> frame)) \<times> 'w" where
  "PsseControl_run_load_flow p flat_start lock_taps w =
     (let tap_changing = (if lock_taps then 0 else 1);
          shunt_adjustment = (if lock_taps then 0 else 2)
      in case (if flat_start then fdns p else fnsl p) tap_changing shunt_adjustment flat_start w of
           (ierr, w1) \<Rightarrow>
             if ierr = 1 \<or> ierr = 5 then (Inl SyntaxError, w1)
             else if ierr = 2 then (Inl IOError, w1)
             else if ierr = 3 \<or> ierr = 4 then
               (case PsseControl_get_islanded_busbars p w1 of
                  (Inl e, w2) \<Rightarrow> (Inl e, w2)
                | (Inr islanded_busbars, w2) \<Rightarrow> (Inr (False, islanded_busbars), w2))
             else if ierr > 0 then (Inl SyntaxError, w1)
             else (Inr (PsseControl_check_convergent_load_flow p w1, empty_frame), w1))"

subsection \<open>The contingency executor (class Contingency)\<close>

definition Contingency_init ::
    "branch_row list \<Rightarrow> branch_row list \<Rightarrow> tx3_row list \<Rightarrow> busbar_row list \<Rightarrow> shunt_row list
       \<Rightarrow> shunt_row list \<Rightarrow> string \<Rightarrow> int list \<Rightarrow> contingency" where
  "Contingency_init circuits0 tx20 tx30 busbars0 fixed_shunts0 switched_shunts0 name ignore =
     \<lparr>cname = name, circuits = circuits0, tx2 = tx20, tx3 = tx30, busbars = busbars0,
      fixed_shunts = fixed_shunts0, switched_shunts = switched_shunts0,
      busbars_to_ignore = ignore, setup_correctly = False, convergent_v_step = False,
      convergent_v_steady = False,
      voltage_control_contingency =
        (circuits0 = [] \<and> tx20 = [] \<and> tx30 = [] \<and> busbars0 = [])\<rparr>"

definition Contingency_convergent_flag :: "contingency \<Rightarrow> bool" where
  "Contingency_convergent_flag c =
     (if convergent_v_step c \<and> convergent_v_steady c then True else False)"

text \<open>The data objects of one study, which the program passes around by reference.\<close>

record study_data =
  sd_circuit :: branch_data
  sd_tx2 :: branch_data
  sd_tx3 :: tx3_data
  sd_tx3_wind :: tx3wnd_data
  sd_bus :: bus_data
  sd_fixed_shunt :: shunt_data
  sd_switched_shunt :: shunt_data
  sd_machine :: machine_data

text \<open>One switching call per row of a table, in order; the successes are collected.\<close>

fun switch_all :: "('r \<Rightarrow> 'w \<Rightarrow> bool \<times> 'w) \<Rightarrow> 'r list \<Rightarrow> 'w \<Rightarrow> bool list \<times> 'w" where
  "switch_all f [] w = ([], w)"
| "switch_all f (r # rs) w =
     (case f r w of
        (ok, w1) \<Rightarrow> (case switch_all f rs w1 of (oks, w2) \<Rightarrow> (ok # oks, w2)))"

text \<open>The updates at the end of \<^verbatim>\<open>setup_contingency\<close>, in the order of the source.\<close>

definition update_all :: "'w psspy \<Rightarrow> study_data \<Rightarrow> string \<Rightarrow> 'w \<Rightarrow> exn + study_data" where
  "update_all p sd name w =
     and_then (BranchData_update p (sd_circuit sd) (Some name) w) (\<lambda>d1.
     and_then (BranchData_update p (sd_tx2 sd) (Some name) w) (\<lambda>d2.
     and_then (Tx3Data_update p (sd_tx3 sd) (Some name) w) (\<lambda>d3.
     and_then (Tx3WndData_update p (sd_tx3_wind sd) (Some name) w) (\<lambda>d4.
     and_then (BusData_update p (sd_bus sd) (Some name) w) (\<lambda>d5.
     and_then (ShuntData_update p (sd_switched_shunt sd) (Some name) w) (\<lambda>d6.
     and_then (ShuntData_update p (sd_fixed_shunt sd) (Some name) w) (\<lambda>d7.
       Inr (sd\<lparr>sd_circuit := d1, sd_tx2 := d2, sd_tx3 := d3, sd_tx3_wind := d4, sd_bus := d5,
                sd_switched_shunt := d6, sd_fixed_shunt := d7\<rparr>))))))))"

text \<open>The switching loops of \<^verbatim>\<open>setup_contingency\<close>: circuits, two-winding
  transformers, three-winding transformers, busbars, fixed shunts and switched shunts, in
  that order; the list \<^verbatim>\<open>success\<close> and the engine state result.\<close>

definition switch_elements ::
    "'w psspy \<Rightarrow> contingency \<Rightarrow> study_data \<Rightarrow> 'w \<Rightarrow> bool list \<times> 'w" where
  "switch_elements p c sd w =
     (case switch_all (BranchData_switch p (sd_circuit sd)) (circuits c) w of (s1, w1) \<Rightarrow>
     (case switch_all (BranchData_switch p (sd_tx2 sd)) (tx2 c) w1 of (s2, w2) \<Rightarrow>
     (case switch_all (Tx3Data_switch p) (tx3 c) w2 of (s3, w3) \<Rightarrow>
     (case switch_all (BusData_switch p) (busbars c) w3 of (s4, w4) \<Rightarrow>
     (case switch_all (ShuntData_switch p (sd_fixed_shunt sd)) (fixed_shunts c) w4 of (s5, w5) \<Rightarrow>
     (case switch_all (ShuntData_switch p (sd_switched_shunt sd)) (switched_shunts c) w5 of
        (s6, w6) \<Rightarrow> (s1 @ s2 @ s3 @ s4 @ s5 @ s6, w6)))))))"

text \<open>\<^verbatim>\<open>Contingency.setup_contingency\<close> (with the default \<^verbatim>\<open>restore=False\<close>).\<close>

definition Contingency_setup_contingency ::
    "'w psspy \<Rightarrow> contingency \<Rightarrow> study_data \<Rightarrow> 'w \<Rightarrow> (exn + (contingency \<times> study_data)) \<times> 'w" where
  "Contingency_setup_contingency p c sd w =
     (if cname c = Contingency_bc then (Inr (c\<lparr>setup_correctly := True\<rparr>, sd), w)
      else
        (case switch_elements p c sd w of
           (success, w6) \<Rightarrow>
             (case update_all p sd (cname c) w6 of
                Inl e \<Rightarrow> (Inl e, w6)
              | Inr sd' \<Rightarrow> (Inr (c\<lparr>setup_correctly := list_all id success\<rparr>, sd'), w6))))"

subsection \<open>The reactive compensation search\<close>

text \<open>The local variables of \<^verbatim>\<open>Contingency.check_voltage_adjust_machines\<close>, with the
  busbar data that the loop updates.\<close>

record search_state =
  within_limits :: bool
  target_bus :: "label option"
  target_voltage :: real
  target_q :: real
  targets_log :: "label option \<rightharpoonup> real"
  iter_count :: nat
  ss_bus :: bus_data

text \<open>The engine takes the target bus as an integer.\<close>

definition label_int :: "label option \<Rightarrow> exn + int" where
  "label_int t = (case t of Some (IntL b) \<Rightarrow> Inr b | _ \<Rightarrow> Inl TypeError)"

text \<open>The loop over the target machines: the new reactive dispatch when shunts are
  targeted, the new voltage target otherwise.\<close>

fun adjust_machines ::
    "'w psspy \<Rightarrow> (int \<times> string) list \<Rightarrow> real \<Rightarrow> real \<Rightarrow> label option \<Rightarrow> 'w \<Rightarrow> (exn + unit) \<times> 'w" where
  "adjust_machines p [] tv tq tb w = (Inr (), w)"
| "adjust_machines p ((bus, mid) # ms) tv tq tb w =
     (if ReactiveCompensationLimits_target_shunts
      then (case MachineData_change_output p bus mid tq w of
              (_, w1) \<Rightarrow> adjust_machines p ms tv tq tb w1)
      else (case label_int tb of
              Inl e \<Rightarrow> (Inl e, w)
            | Inr t \<Rightarrow> (case MachineData_change_target p bus tv t w of
                          (_, w1) \<Rightarrow> adjust_machines p ms tv tq tb w1)))"

text \<open>The within-limits check of the search and the reset of the target bus.\<close>

definition search_check ::
    "'w psspy \<Rightarrow> contingency \<Rightarrow> search_state \<Rightarrow> 'w \<Rightarrow> (exn + search_state) \<times> 'w" where
  "search_check p c s w =
     (case BusData_check_within_limits p (ss_bus s) (cname c) (busbars_to_ignore c) w of
        Inl e \<Rightarrow> (Inl e, w)
      | Inr (bd, ok, tb, max_voltage) \<Rightarrow>
          (Inr (s\<lparr>ss_bus := bd, within_limits := ok,
                   target_bus := (if \<not> ReactiveCompensationLimits_test_target_bus
                                  then Some (IntL 0) else tb)\<rparr>), w))"

text \<open>One pass through the body of the while loop.\<close>

definition search_body ::
    "'w psspy \<Rightarrow> contingency \<Rightarrow> search_state \<Rightarrow> 'w \<Rightarrow> (exn + search_state) \<times> 'w" where
  "search_body p c s w =
     (let tv = (case targets_log s (target_bus s) of
                  Some t \<Rightarrow> t - ReactiveCompensationLimits_v_step
                | None \<Rightarrow> ReactiveCompensationLimits_vmax_target);
          tq = target_q s + ReactiveCompensationLimits_q_step;
          s1 = s\<lparr>target_voltage := tv, target_q := tq,
                 targets_log := (targets_log s)(target_bus s \<mapsto> tv)\<rparr>
      in case adjust_machines p ReactiveCompensationLimits_target_machines tv tq (target_bus s) w of
           (Inl e, w1) \<Rightarrow> (Inl e, w1)
         | (Inr _, w1) \<Rightarrow>
             let s2 = s1\<lparr>iter_count := iter_count s1 + 1\<rparr> in
             (case PsseControl_run_load_flow p False False w1 of
                (Inl e, w2) \<Rightarrow> (Inl e, w2)
              | (Inr (convergent1, _), w2) \<Rightarrow>
                  if \<not> convergent1 then
                    (case PsseControl_run_load_flow p True False w2 of
                       (Inl e, w3) \<Rightarrow> (Inl e, w3)
                     | (Inr (convergent2, _), w3) \<Rightarrow>
                         if convergent2 then
                           (case PsseControl_run_load_flow p False False w3 of
                              (Inl e, w4) \<Rightarrow> (Inl e, w4)
                            | (Inr _, w4) \<Rightarrow> search_check p c s2 w4)
                         else (Inr (s2\<lparr>within_limits := False\<rparr>), w3))
                  else search_check p c s2 w2))"

text \<open>The while loop: it runs while the voltages are not within limits, the voltage
  target is above its floor and the reactive dispatch above its floor.\<close>

function search_loop ::
    "'w psspy \<Rightarrow> contingency \<Rightarrow> search_state \<Rightarrow> 'w \<Rightarrow> (exn + search_state) \<times> 'w" where
  "search_loop p c s w =
     (if \<not> within_limits s \<and> target_voltage s > ReactiveCompensationLimits_vmin_target
         \<and> target_q s > ReactiveCompensationLimits_q_max
      then (case search_body p c s w of
              (Inl e, w') \<Rightarrow> (Inl e, w')
            | (Inr s', w') \<Rightarrow> search_loop p c s' w')
      else (Inr s, w))"
  by pat_completeness auto
termination
proof (relation "measure (\<lambda>(p, c, s, w). nat \<lceil>(target_q s + 1000) / 5\<rceil>)")
  show "wf (measure (\<lambda>(p, c, s, w). nat \<lceil>(target_q s + 1000) / 5\<rceil>))"
    by simp
next
  fix p :: "'w psspy" and c s w x1 w' s'
  assume run: "\<not> within_limits s
      \<and> target_voltage s > ReactiveCompensationLimits_vmin_target
      \<and> target_q s > ReactiveCompensationLimits_q_max"
    and body: "(x1, w') = search_body p c s w" and res: "x1 = Inr s'"
  from body res have q: "target_q s' = target_q s - 5"
    by (auto simp: search_body_def search_check_def Let_def ReactiveCompensationLimits_q_step_def
        split: prod.splits sum.splits if_splits)
  from run have pos: "0 < (target_q s + 1000) / 5"
    by (simp add: ReactiveCompensationLimits_q_max_def)
  have eq: "(target_q s' + 1000) / 5 = (target_q s + 1000) / 5 - 1"
    using q by simp
  have "\<lceil>(target_q s' + 1000) / 5\<rceil> = \<lceil>(target_q s + 1000) / 5\<rceil> - 1"
    unfolding eq by (rule ceiling_diff_one)
  moreover from pos have "0 < \<lceil>(target_q s + 1000) / 5\<rceil>"
    by simp
  ultimately show "((p, c, s', w'), (p, c, s, w))
      \<in> measure (\<lambda>(p, c, s, w). nat \<lceil>(target_q s + 1000) / 5\<rceil>)"
    by simp
qed

declare search_loop.simps [simp del]

text \<open>\<^verbatim>\<open>Contingency.check_voltage_adjust_machines\<close>; the final values of the local
  variables are returned.\<close>

definition Contingency_check_voltage_adjust_machines ::
    "'w psspy \<Rightarrow> contingency \<Rightarrow> bus_data \<Rightarrow> 'w \<Rightarrow> (exn + search_state) \<times> 'w" where
  "Contingency_check_voltage_adjust_machines p c bd w =
     (case search_check p c
             \<lparr>within_limits = False, target_bus = None,
              target_voltage = ReactiveCompensationLimits_vmax_target,
              target_q = ReactiveCompensationLimits_q_min,
              targets_log = Map.empty, iter_count = 0, ss_bus = bd\<rparr> w of
        (Inl e, w1) \<Rightarrow> (Inl e, w1)
      | (Inr s0, w1) \<Rightarrow> search_loop p c s0 w1)"

text \<open>What holds of the local variables whenever the loop condition is tested: the bus
  and limit columns of the steady-state table have one cell per row, and when
  \<^verbatim>\<open>within_limits\<close> is set, the table holds the voltages that the engine reports
  now, each at or below its upper limit at the buses that are not ignored.\<close>

definition search_sound :: "'w psspy \<Rightarrow> contingency \<Rightarrow> search_state \<Rightarrow> 'w \<Rightarrow> bool" where
  "search_sound p c s w =
     (aligned (df_voltage_steady (ss_bus s)) Busbars_bus
      \<and> aligned (df_voltage_steady (ss_bus s)) Busbars_upper_limit
      \<and> (within_limits s \<longrightarrow>
           upper_limit_ok (df_voltage_steady (ss_bus s)) (cname c) (busbars_to_ignore c)
           \<and> (\<exists>nominal voltages.
                 BusData_get_voltages p (ss_bus s) w = Inr (nominal, voltages)
                 \<and> df_columns (df_voltage_steady (ss_bus s)) (cname c) = Some (reals voltages))))"

subsection \<open>Testing a contingency\<close>

text \<open>The step-change phase of \<^verbatim>\<open>Contingency.test_contingency\<close>: the solve with locked
  taps, the recording of islanded buses and the repeated solve.\<close>

definition step_change_solve ::
    "'w psspy \<Rightarrow> contingency \<Rightarrow> bus_data \<Rightarrow> 'w \<Rightarrow> (exn + (bool \<times> bus_data)) \<times> 'w" where
  "step_change_solve p c bd w =
     (case PsseControl_run_load_flow p False True w of
        (Inl e, w1) \<Rightarrow> (Inl e, w1)
      | (Inr (convergent_load_flow, islanded_buses), w1) \<Rightarrow>
          if \<not> df_empty islanded_buses then
            (case BusData_add_islanded_busbars bd islanded_buses (cname c) of
               Inl e \<Rightarrow> (Inl e, w1)
             | Inr bd1 \<Rightarrow>
                 (case PsseControl_run_load_flow p False True w1 of
                    (Inl e, w2) \<Rightarrow> (Inl e, w2)
                  | (Inr (convergent2, islanded2), w2) \<Rightarrow>
                      if \<not> df_empty islanded2 then (Inl SyntaxError, w2)
                      else (Inr (convergent2, bd1), w2)))
          else (Inr (convergent_load_flow, bd), w1))"

text \<open>The steady-state phase: the solve with free taps, on non-convergence a flat start
  and, if that converges, one more solve without flat start.\<close>

definition steady_state_solve :: "'w psspy \<Rightarrow> 'w \<Rightarrow> (exn + bool) \<times> 'w" where
  "steady_state_solve p w =
     (case PsseControl_run_load_flow p False False w of
        (Inl e, w1) \<Rightarrow> (Inl e, w1)
      | (Inr (convergent1, _), w1) \<Rightarrow>
          if \<not> convergent1 then
            (case PsseControl_run_load_flow p True False w1 of
               (Inl e, w2) \<Rightarrow> (Inl e, w2)
             | (Inr (convergent2, _), w2) \<Rightarrow>
                 if \<not> convergent2 then (Inr convergent2, w2)
                 else (case PsseControl_run_load_flow p False False w2 of
                         (Inl e, w3) \<Rightarrow> (Inl e, w3)
                       | (Inr (convergent3, _), w3) \<Rightarrow> (Inr convergent3, w3)))
          else (Inr convergent1, w1))"

text \<open>The results stored after a steady-state solution: voltages, loadings and machine
  outputs.\<close>

definition record_steady_state :: "'w psspy \<Rightarrow> string \<Rightarrow> study_data \<Rightarrow> 'w \<Rightarrow> exn + study_data" where
  "record_steady_state p name sd w =
     and_then (BusData_update_voltages p (sd_bus sd) name False False w) (\<lambda>d1.
     and_then (BranchData_update p (sd_circuit sd) (Some name) w) (\<lambda>d2.
     and_then (BranchData_update p (sd_tx2 sd) (Some name) w) (\<lambda>d3.
     and_then (Tx3WndData_update p (sd_tx3_wind sd) (Some name) w) (\<lambda>d4.
     and_then (MachineData_update p (sd_machine sd) (Some name) w) (\<lambda>d5.
       Inr (sd\<lparr>sd_bus := d1, sd_circuit := d2, sd_tx2 := d3, sd_tx3_wind := d4,
                sd_machine := d5\<rparr>))))))"

fun zero_machines :: "'w psspy \<Rightarrow> (int \<times> string) list \<Rightarrow> 'w \<Rightarrow> 'w" where
  "zero_machines p [] w = w"
| "zero_machines p ((bus, mid) # ms) w =
     (case MachineData_change_output p bus mid 0 w of (_, w1) \<Rightarrow> zero_machines p ms w1)"

text \<open>\<^verbatim>\<open>Contingency.test_contingency\<close>.\<close>

definition Contingency_test_contingency ::
    "'w psspy \<Rightarrow> contingency \<Rightarrow> study_data \<Rightarrow> bool \<Rightarrow> 'w
       \<Rightarrow> (exn + (bool \<times> contingency \<times> study_data)) \<times> 'w" where
  "Contingency_test_contingency p c sd adjust_reactive w =
     (if \<not> setup_correctly c then
        (case and_then (BusData_update_voltages p (sd_bus sd) (cname c) False True w)
                (\<lambda>bd. BusData_update_voltages p bd (cname c) True True w) of
           Inl e \<Rightarrow> (Inl e, w)
         | Inr bd \<Rightarrow> (Inr (False, c, sd\<lparr>sd_bus := bd\<rparr>), w))
      else
        let w0 = (if ReactiveCompensationLimits_target_shunts
                  then zero_machines p ReactiveCompensationLimits_target_machines w else w)
        in case step_change_solve p c (sd_bus sd) w0 of
             (Inl e, w1) \<Rightarrow> (Inl e, w1)
           | (Inr (convergent_step, bd1), w1) \<Rightarrow>
               (case BusData_update_voltages p bd1 (cname c) True (\<not> convergent_step) w1 of
                  Inl e \<Rightarrow> (Inl e, w1)
                | Inr bd2 \<Rightarrow>
                    let c1 = c\<lparr>convergent_v_step := convergent_step\<rparr> in
                    (case steady_state_solve p w1 of
                       (Inl e, w2) \<Rightarrow> (Inl e, w2)
                     | (Inr convergent_load_flow, w2) \<Rightarrow>
                         if \<not> convergent_load_flow \<and> \<not> adjust_reactive then
                           (case BusData_update_voltages p bd2 (cname c) False True w2 of
                              Inl e \<Rightarrow> (Inl e, w2)
                            | Inr bd3 \<Rightarrow>
                                (Inr (True, c1\<lparr>convergent_v_steady := False\<rparr>,
                                      sd\<lparr>sd_bus := bd3\<rparr>), w2))
                         else
                           (case (if adjust_reactive
                                  then (case Contingency_check_voltage_adjust_machines p c1 bd2 w2 of
                                          (Inl e, w3) \<Rightarrow> (Inl e, w3)
                                        | (Inr s, w3) \<Rightarrow> (Inr (ss_bus s), w3))
                                  else (Inr bd2, w2)) of
                              (Inl e, w3) \<Rightarrow> (Inl e, w3)
                            | (Inr bd3, w3) \<Rightarrow>
                                (case record_steady_state p (cname c) (sd\<lparr>sd_bus := bd3\<rparr>) w3 of
                                   Inl e \<Rightarrow> (Inl e, w3)
                                 | Inr sd' \<Rightarrow>
                                     (Inr (True, c1\<lparr>convergent_v_steady := True\<rparr>, sd'),
                                      w3))))))"

subsection \<open>The study of one network case (Main.main)\<close>

text \<open>The table \<^verbatim>\<open>contingency_convergence\<close>: its index and, for the rows that have been
  filled, the message and the convergence flag.\<close>

record convergence_table =
  cv_index :: "string list"
  cv_rows :: "string \<rightharpoonup> string \<times> bool"

definition cv_set :: "convergence_table \<Rightarrow> string \<Rightarrow> string \<times> bool \<Rightarrow> convergence_table" where
  "cv_set cv name row =
     \<lparr>cv_index = (if name \<in> set (cv_index cv) then cv_index cv else cv_index cv @ [name]),
      cv_rows = (cv_rows cv)(name \<mapsto> row)\<rparr>"

text \<open>\<^verbatim>\<open>df.loc[name] = v\<close> on a one-column table of flags.\<close>

definition set_row :: "(string \<times> cell) list \<Rightarrow> string \<Rightarrow> cell \<Rightarrow> (string \<times> cell) list" where
  "set_row rows name v =
     (if name \<in> fst ` set rows then map (\<lambda>(n, x). if n = name then (n, v) else (n, x)) rows
      else rows @ [(name, v)])"

record loop_state =
  ls_data :: study_data
  ls_circuit_switching :: "string list"
  ls_shunt_switching :: "string list"
  ls_convergence :: convergence_table

text \<open>The loop over the contingencies: classification, setup, test, reload of the case and
  the row of the convergence table.\<close>

fun contingency_loop ::
    "'w psspy \<Rightarrow> psse_control \<Rightarrow> bool \<Rightarrow> contingency list \<Rightarrow> loop_state \<Rightarrow> 'w
       \<Rightarrow> (exn + loop_state) \<times> 'w" where
  "contingency_loop p pc adjust_reactive [] ls w = (Inr ls, w)"
| "contingency_loop p pc adjust_reactive (c # cs) ls w =
     (let ls1 = (if voltage_control_contingency c
                 then ls\<lparr>ls_shunt_switching := ls_shunt_switching ls @ [cname c]\<rparr>
                 else ls\<lparr>ls_circuit_switching := ls_circuit_switching ls @ [cname c]\<rparr>)
      in case Contingency_setup_contingency p c (ls_data ls1) w of
           (Inl e, w1) \<Rightarrow> (Inl e, w1)
         | (Inr (c1, sd1), w1) \<Rightarrow>
             (case Contingency_test_contingency p c1 sd1 adjust_reactive w1 of
                (Inl e, w2) \<Rightarrow> (Inl e, w2)
              | (Inr (_, c2, sd2), w2) \<Rightarrow>
                  (case PsseControl_load_data_case p pc None w2 of
                     (Inl e, w3) \<Rightarrow> (Inl e, w3)
                   | (Inr _, w3) \<Rightarrow>
                       contingency_loop p pc adjust_reactive cs
                         (ls1\<lparr>ls_data := sd2,
                              ls_convergence :=
                                cv_set (ls_convergence ls1) (cname c2)
                                  (convergence_message c2, Contingency_convergent_flag c2)\<rparr>)
                         w3)))"

text \<open>The data objects created at the start of the study.\<close>

definition initial_data :: "'w psspy \<Rightarrow> int \<Rightarrow> 'w \<Rightarrow> exn + study_data" where
  "initial_data p sid w =
     and_then (BusData_init p 2 sid w) (\<lambda>bus_data.
     and_then (MachineData_init p sid w) (\<lambda>machine_data.
     and_then (BranchData_init p 2 False sid w) (\<lambda>circuit_data.
     and_then (BranchData_init p 6 True sid w) (\<lambda>tx2_data.
     and_then (Tx3Data_init p sid w) (\<lambda>tx3_data.
     and_then (Tx3WndData_init p sid w) (\<lambda>tx3_wind_data.
     and_then (ShuntData_init p True sid w) (\<lambda>fixed_shunt_data.
     and_then (ShuntData_init p False sid w) (\<lambda>switched_shunt_data.
       Inr \<lparr>sd_circuit = circuit_data, sd_tx2 = tx2_data, sd_tx3 = tx3_data,
            sd_tx3_wind = tx3_wind_data, sd_bus = bus_data,
            sd_fixed_shunt = fixed_shunt_data, sd_switched_shunt = switched_shunt_data,
            sd_machine = machine_data\<rparr>))))))))"

text \<open>The results of a study: the convergence table, the list \<^verbatim>\<open>compliance\<close> of
  one-column tables (step-change voltage, steady-state voltage, circuit, two-winding and
  three-winding loading) and the data objects.\<close>

record results =
  res_convergence :: convergence_table
  res_step :: "(string \<times> cell) list"
  res_steady :: "(string \<times> cell) list"
  res_circuit :: "(string \<times> cell) list"
  res_tx2 :: "(string \<times> cell) list"
  res_tx3 :: "(string \<times> cell) list"
  res_data :: study_data

text \<open>The compliance checks at the end of the study.\<close>

definition compliance_checks :: "loop_state \<Rightarrow> exn + results" where
  "compliance_checks ls =
     (let sd = ls_data ls;
          circuit_switching = ls_circuit_switching ls;
          shunt_switching = ls_shunt_switching ls
      in and_then (BusData_check_compliance (sd_bus sd) circuit_switching
                     (Some EirGridThresholds_cont_step_change_limit))
           (\<lambda>(bd1, df_compliance_cont_step).
         and_then (BusData_check_compliance bd1 shunt_switching
                     (Some EirGridThresholds_reactor_step_change_limit))
           (\<lambda>(bd2, df_compliance_reactor_step).
         let df_compliance_step_change =
               set_row (df_compliance_cont_step @ df_compliance_reactor_step)
                 Contingency_bc (Flag True);
             all_cont_names = circuit_switching @ shunt_switching
         in and_then (BusData_check_compliance bd2 all_cont_names None) (\<lambda>(bd3, steady).
            and_then (BranchData_check_compliance (sd_circuit sd) all_cont_names) (\<lambda>(d1, r1).
            and_then (BranchData_check_compliance (sd_tx2 sd) all_cont_names) (\<lambda>(d2, r2).
            and_then (Tx3WndData_check_compliance (sd_tx3_wind sd) all_cont_names) (\<lambda>(d3, r3).
              Inr \<lparr>res_convergence = ls_convergence ls,
                   res_step = df_compliance_step_change, res_steady = steady,
                   res_circuit = r1, res_tx2 = r2, res_tx3 = r3,
                   res_data = sd\<lparr>sd_bus := bd3, sd_circuit := d1, sd_tx2 := d2,
                                 sd_tx3_wind := d3\<rparr>\<rparr>)))))))"

text \<open>\<^verbatim>\<open>main\<close>: the case is loaded and solved, the data objects are created, the base
  case is entered in the convergence table, every contingency is run and the compliance
  checks are made.  The contingencies are those that the workbook import has built.\<close>

definition Main_main ::
    "'w psspy \<Rightarrow> contingency list \<Rightarrow> string \<Rightarrow> bool \<Rightarrow> int list \<Rightarrow> 'w \<Rightarrow> (exn + results) \<times> 'w" where
  "Main_main p conts psse_sav_case adjust_reactive busbars_to_consider w =
     (case PsseControl_load_data_case p \<lparr>pc_sav = [], pc_sid = - 1\<rparr> (Some psse_sav_case) w of
        (Inl e, w1) \<Rightarrow> (Inl e, w1)
      | (Inr pc1, w1) \<Rightarrow>
     (case PsseControl_define_bus_subsystem p pc1 busbars_to_consider w1 of
        (Inl e, w2) \<Rightarrow> (Inl e, w2)
      | (Inr psse_case, w2) \<Rightarrow>
     (case PsseControl_run_load_flow p False False w2 of
        (Inl e, w3) \<Rightarrow> (Inl e, w3)
      | (Inr (load_flow_success, islanded_busbars), w3) \<Rightarrow>
          if \<not> load_flow_success \<or> \<not> df_empty islanded_busbars then (Inl ValueError, w3)
          else
            (case initial_data p (pc_sid psse_case) w3 of
               Inl e \<Rightarrow> (Inl e, w3)
             | Inr sd \<Rightarrow>
                 let contingency_convergence =
                       cv_set \<lparr>cv_index = map cname conts, cv_rows = Map.empty\<rparr>
                         Contingency_bc (Contingency_convergent, True)
                 in (case contingency_loop p psse_case adjust_reactive conts
                           \<lparr>ls_data = sd, ls_circuit_switching = [], ls_shunt_switching = [],
                            ls_convergence = contingency_convergence\<rparr> w3 of
                       (Inl e, w4) \<Rightarrow> (Inl e, w4)
                     | (Inr ls, w4) \<Rightarrow> (compliance_checks ls, w4))))))"


subsection \<open>The batch of network cases (the script of Main.py)\<close>

text \<open>The loop over the selected cases: a ValueError of \<^verbatim>\<open>main\<close> is caught and logged
  and the loop goes on; any other exception leaves the loop.  The result is the list of
  the cases attempted, each with whether it completed, and the exception that ended the
  run, if any.\<close>

fun batch ::
    "'w psspy \<Rightarrow> contingency list \<Rightarrow> int list \<Rightarrow> (string \<times> bool) list \<Rightarrow> (string \<times> bool) list \<Rightarrow> 'w
       \<Rightarrow> (exn option \<times> (string \<times> bool) list) \<times> 'w" where
  "batch p conts busbars_to_consider [] attempted w = ((None, attempted), w)"
| "batch p conts busbars_to_consider ((pth_sav, adjust_reactive) # rest) attempted w =
     (case Main_main p conts pth_sav adjust_reactive busbars_to_consider w of
        (Inr _, w1) \<Rightarrow> batch p conts busbars_to_consider rest (attempted @ [(pth_sav, True)]) w1
      | (Inl ValueError, w1) \<Rightarrow>
          batch p conts busbars_to_consider rest (attempted @ [(pth_sav, False)]) w1
      | (Inl e, w1) \<Rightarrow> ((Some e, attempted @ [(pth_sav, False)]), w1))"

subsection \<open>Example engines\<close>

text \<open>
  An engine for the examples.  Its state counts the solves and the island calls made so
  far.  The parameters are the error code of loading a case (by path), the error code of
  the n-th solve, the code that \<^verbatim>\<open>solved\<close> reports after n solves, the error code of the
  bus retrieval, the in-service buses (number and type) after k island calls, all buses,
  the voltage of every bus after n solves and the error code of switching a branch.  The
  network has no branches, transformers, shunts or machines.
\<close>

definition engine ::
    "(string \<Rightarrow> int) \<Rightarrow> (nat \<Rightarrow> int) \<Rightarrow> (nat \<Rightarrow> int) \<Rightarrow> int \<Rightarrow> (nat \<Rightarrow> (int \<times> int) list)
       \<Rightarrow> (int \<times> int) list \<Rightarrow> (nat \<Rightarrow> real) \<Rightarrow> int \<Rightarrow> (nat \<times> nat) psspy" where
  "engine load_ierr solve_ierr solved_code bus_ierr in_service all_buses volt switch_ierr =
     \<lparr>case_load = (\<lambda>pth w. (load_ierr pth, w)),
      solution_parameters_4 = (\<lambda>w. (0, w)),
      bsys = (\<lambda>bs w. (0, w)),
      fnsl = (\<lambda>t s f (n, k). (solve_ierr n, (Suc n, k))),
      fdns = (\<lambda>t s f (n, k). (solve_ierr n, (Suc n, k))),
      solved = (\<lambda>(n, k). solved_code n),
      island = (\<lambda>(n, k). (0, (n, Suc k))),
      abusint = (\<lambda>sid flag (n, k).
                  let bs = (if flag = 1 then in_service k else all_buses)
                  in (bus_ierr, map fst bs, map snd bs)),
      abuschar = (\<lambda>sid flag w. 0),
      abusreal = (\<lambda>sid flag (n, k).
                  let bs = (if flag = 1 then in_service k else all_buses)
                  in (0, map (\<lambda>_. 220) bs, map (\<lambda>_. volt n) bs)),
      abrnint = (\<lambda>sid flag w. (0, [], [], [])),
      abrnchar = (\<lambda>sid flag w. 0),
      abrnreal = (\<lambda>sid flag w. (0, [], [], [], [])),
      awndint = (\<lambda>sid flag w. (0, [], [], [], [], [])),
      awndchar = (\<lambda>sid flag w. 0),
      awndreal = (\<lambda>sid flag w. (0, [], [], [], [])),
      atr3int = (\<lambda>sid flag w. (0, [], [], [], [])),
      atr3char = (\<lambda>sid flag w. 0),
      afxshuntint = (\<lambda>sid flag w. (0, [], [])),
      afxshuntchar = (\<lambda>sid flag w. 0),
      aswshint = (\<lambda>sid flag w. (0, [], [])),
      aswshchar = (\<lambda>sid flag w. 0),
      amachint = (\<lambda>sid flag w. (0, [], [])),
      amachchar = (\<lambda>sid flag w. 0),
      amachreal = (\<lambda>sid flag w. (0, [])),
      branch_chng = (\<lambda>i j ckt st w. (switch_ierr, w)),
      two_winding_chng_4 = (\<lambda>i j ckt st w. (switch_ierr, w)),
      three_wnd_imped_chng_3 = (\<lambda>i j k ckt st w. (0, w)),
      bus_chng_3 = (\<lambda>i st w. (0, w)),
      shunt_chng = (\<lambda>i ckt st w. (0, w)),
      switched_shunt_chng_3 = (\<lambda>i st w. (0, w)),
      plant_chng = (\<lambda>i t v w. (0, w)),
      machine_chng_2 = (\<lambda>i mid q w. (0, w))\<rparr>"

text \<open>One 220 kV bus; every solve converges and leaves the bus at 0.875 pu.\<close>

definition engine_low :: "(nat \<times> nat) psspy" where
  "engine_low = engine (\<lambda>pth. 0) (\<lambda>n. 0) (\<lambda>n. 0) 0 (\<lambda>k. [(101, 1)]) [(101, 1)] (\<lambda>n. 7 / 8) 0"

text \<open>One 220 kV bus; every solve converges and leaves the bus at 1.2 pu.\<close>

definition engine_high :: "(nat \<times> nat) psspy" where
  "engine_high = engine (\<lambda>pth. 0) (\<lambda>n. 0) (\<lambda>n. 0) 0 (\<lambda>k. [(101, 1)]) [(101, 1)] (\<lambda>n. 6 / 5) 0"

text \<open>The steady-state table of that bus, with the limits of its band.\<close>

definition bus_example_steady :: bus_data where
  "bus_example_steady =
     \<lparr>bd_sid = 1, bd_flag = 2, df_state = empty_frame,
      df_voltage_steady =
        \<lparr>df_index = [IntL 101],
         df_columns = [''NUMBER'' \<mapsto> [Num 101], ''BASE'' \<mapsto> [Num 220], ''PU'' \<mapsto> [Num 1],
                       ''LOWER_LIMIT'' \<mapsto> [Num (200 / 220)],
                       ''UPPER_LIMIT'' \<mapsto> [Num (240 / 220)], ''BASE_CASE'' \<mapsto> [Num 1]]\<rparr>,
      df_voltage_step = empty_frame\<rparr>"

text \<open>A contingency C for the search on that bus, the busbar data once the voltage of
  1.2 pu has been stored for C, and the local variables of the search after its pass
  number m + 1 when no pass brings the bus within its limits.\<close>

definition cont_example :: contingency where
  "cont_example = Contingency_init [(101, 102, ''1'', 0)] [] [] [] [] [] ''C'' []"

definition bus_example_high :: bus_data where
  "bus_example_high =
     bus_example_steady\<lparr>df_voltage_steady :=
       (df_voltage_steady bus_example_steady)\<lparr>df_columns :=
          (df_columns (df_voltage_steady bus_example_steady))(''C'' \<mapsto> [Num (6 / 5)])\<rparr>\<rparr>"

definition search_state_after :: "nat \<Rightarrow> search_state" where
  "search_state_after m =
     \<lparr>within_limits = False, target_bus = Some (IntL 0),
      target_voltage = ReactiveCompensationLimits_vmax_target
                         - real m * ReactiveCompensationLimits_v_step,
      target_q = - 5 * real (Suc m),
      targets_log = [Some (IntL 0) \<mapsto> ReactiveCompensationLimits_vmax_target
                                        - real m * ReactiveCompensationLimits_v_step],
      iter_count = Suc m, ss_bus = bus_example_high\<rparr>"

text \<open>Two 220 kV buses at 1.0 pu, bus 101 the swing bus (type 3) and bus 102 a load bus
  (type 1), and the data objects of a study of that network.\<close>

definition bus_example_two :: bus_data where
  "bus_example_two =
     \<lparr>bd_sid = 1, bd_flag = 2,
      df_state =
        \<lparr>df_index = [IntL 101, IntL 102],
         df_columns = [''NUMBER'' \<mapsto> [Num 101, Num 102], ''BASE'' \<mapsto> [Num 220, Num 220],
                       ''TYPE'' \<mapsto> [Num 3, Num 1], ''BASE_CASE'' \<mapsto> [Num 3, Num 1]]\<rparr>,
      df_voltage_steady =
        \<lparr>df_index = [IntL 101, IntL 102],
         df_columns = [''NUMBER'' \<mapsto> [Num 101, Num 102], ''BASE'' \<mapsto> [Num 220, Num 220],
                       ''PU'' \<mapsto> [Num 1, Num 1],
                       ''LOWER_LIMIT'' \<mapsto> [Num (200 / 220), Num (200 / 220)],
                       ''UPPER_LIMIT'' \<mapsto> [Num (240 / 220), Num (240 / 220)],
                       ''BASE_CASE'' \<mapsto> [Num 1, Num 1]]\<rparr>,
      df_voltage_step =
        \<lparr>df_index = [IntL 101, IntL 102],
         df_columns = [''NUMBER'' \<mapsto> [Num 101, Num 102], ''BASE'' \<mapsto> [Num 220, Num 220],
                       ''PU'' \<mapsto> [Num 1, Num 1], ''BASE_CASE'' \<mapsto> [Num 1, Num 1]]\<rparr>\<rparr>"

definition study_example :: study_data where
  "study_example =
     \<lparr>sd_circuit = \<lparr>br_tx = False, br_flag = 2, br_sid = 1, br_df_status = empty_frame,
                    br_df_loading = empty_frame\<rparr>,
      sd_tx2 = \<lparr>br_tx = True, br_flag = 6, br_sid = 1, br_df_status = empty_frame,
                br_df_loading = empty_frame\<rparr>,
      sd_tx3 = \<lparr>t3_flag = 2, t3_sid = 1, t3_df = empty_frame\<rparr>,
      sd_tx3_wind = \<lparr>tw_flag = 3, tw_sid = 1, tw_df_status = empty_frame,
                     tw_df_loading = empty_frame\<rparr>,
      sd_bus = bus_example_two,
      sd_fixed_shunt = \<lparr>sh_fixed = True, sh_flag = 4, sh_sid = 1, sh_df_status = empty_frame\<rparr>,
      sd_switched_shunt = \<lparr>sh_fixed = False, sh_flag = 4, sh_sid = 1,
                           sh_df_status = empty_frame\<rparr>,
      sd_machine = \<lparr>mc_flag = 4, mc_sid = 1, mc_df_loading = empty_frame\<rparr>\<rparr>"

text \<open>The engine of that network on which switching a branch fails, and the engine on
  which the first solve reports an island: bus 102 is in service before the island call
  and is no longer listed after it.\<close>

definition engine_switch_fail :: "(nat \<times> nat) psspy" where
  "engine_switch_fail =
     engine (\<lambda>pth. 0) (\<lambda>n. 0) (\<lambda>n. 0) 0 (\<lambda>k. [(101, 3), (102, 1)]) [(101, 3), (102, 1)]
       (\<lambda>n. 1) 1"

definition engine_island :: "(nat \<times> nat) psspy" where
  "engine_island =
     engine (\<lambda>pth. 0) (\<lambda>n. if n = 0 then 3 else 0) (\<lambda>n. 0) 0
       (\<lambda>k. if k = 0 then [(101, 3), (102, 1)] else [(101, 3)]) [(101, 3), (102, 1)]
       (\<lambda>n. 1) 0"

text \<open>
  A small network for the study of a whole case, with an element in every table that the
  study reads: a 400 kV swing bus 101 with a machine, 220 kV buses 102 and 104, a 110 kV
  bus 103, a circuit 102-104 (identifier 1), a two-winding transformer 103-104 and a
  three-winding transformer 101-102-103; no shunts.  The engine state counts the solves
  and the island calls and records whether the circuit is switched out; loading a case
  puts the circuit back.  With the circuit out, bus 104 is at 0.96875 pu, the circuit
  carries nothing and the transformer 103-104 carries 60 MVA instead of 30.  Every solve
  converges; the case file \<^verbatim>\<open>bad.sav\<close> cannot be loaded; switching anything but the
  circuit and changing a machine are refused.
\<close>

definition engine_net :: "(nat \<times> nat \<times> bool) psspy" where
  "engine_net =
     \<lparr>case_load = (\<lambda>pth (n, k, out). if pth = ''bad.sav'' then (1, (n, k, out))
                                       else (0, (n, k, False))),
      solution_parameters_4 = (\<lambda>w. (0, w)),
      bsys = (\<lambda>bs w. (0, w)),
      fnsl = (\<lambda>t s f (n, k, out). (0, (Suc n, k, out))),
      fdns = (\<lambda>t s f (n, k, out). (0, (Suc n, k, out))),
      solved = (\<lambda>w. 0),
      island = (\<lambda>(n, k, out). (0, (n, Suc k, out))),
      abusint = (\<lambda>sid flag w. (0, [101, 102, 103, 104], [3, 1, 1, 1])),
      abuschar = (\<lambda>sid flag w. 0),
      abusreal = (\<lambda>sid flag (n, k, out).
                  (0, [400, 220, 110, 220], [1, 1, 1, if out then 31 / 32 else 1])),
      abrnint = (\<lambda>sid flag (n, k, out).
                  if flag = 2 then (0, [102, 104], [104, 102], if out then [0, 0] else [1, 1])
                  else if flag = 6 then (0, [103, 104], [104, 103], [1, 1])
                  else (0, [], [], [])),
      abrnchar = (\<lambda>sid flag w. 0),
      abrnreal = (\<lambda>sid flag (n, k, out).
                  if flag = 2
                  then (0, [100, 100], [100, 100], [100, 100], if out then [0, 0] else [50, 50])
                  else if flag = 6
                  then (0, [100, 100], [100, 100], [100, 100], if out then [60, 60] else [30, 30])
                  else (0, [], [], [], [])),
      awndint = (\<lambda>sid flag w.
                  (0, [101, 102, 103], [101, 101, 101], [102, 102, 102], [103, 103, 103],
                   [1, 1, 1])),
      awndchar = (\<lambda>sid flag w. 0),
      awndreal = (\<lambda>sid flag w.
                  (0, [200, 200, 200], [200, 200, 200], [200, 200, 200], [80, 50, 30])),
      atr3int = (\<lambda>sid flag w. (0, [101], [102], [103], [1])),
      atr3char = (\<lambda>sid flag w. 0),
      afxshuntint = (\<lambda>sid flag w. (0, [], [])),
      afxshuntchar = (\<lambda>sid flag w. 0),
      aswshint = (\<lambda>sid flag w. (0, [], [])),
      aswshchar = (\<lambda>sid flag w. 0),
      amachint = (\<lambda>sid flag w. (0, [101], [1])),
      amachchar = (\<lambda>sid flag w. 0),
      amachreal = (\<lambda>sid flag w. (0, [10])),
      branch_chng = (\<lambda>i j ckt st (n, k, out).
                      if i = 102 \<and> j = 104 \<and> ckt = ''1'' then (0, (n, k, st = 0))
                      else (1, (n, k, out))),
      two_winding_chng_4 = (\<lambda>i j ckt st w. (1, w)),
      three_wnd_imped_chng_3 = (\<lambda>i j k ckt st w. (1, w)),
      bus_chng_3 = (\<lambda>i st w. (1, w)),
      shunt_chng = (\<lambda>i ckt st w. (1, w)),
      switched_shunt_chng_3 = (\<lambda>i st w. (1, w)),
      plant_chng = (\<lambda>i t v w. (1, w)),
      machine_chng_2 = (\<lambda>i mid q w. (1, w))\<rparr>"

text \<open>The same network when the retrieval of the bus numbers and types fails, and when
  every solve returns error code 5: the prerequisites of the solver are not met.\<close>

definition engine_bus_error :: "(nat \<times> nat \<times> bool) psspy" where
  "engine_bus_error = engine_net\<lparr>abusint := (\<lambda>sid flag w. (1, [], []))\<rparr>"

definition engine_script_error :: "(nat \<times> nat \<times> bool) psspy" where
  "engine_script_error = engine_net\<lparr>fnsl := (\<lambda>t s f (n, k, out). (5, (Suc n, k, out)))\<rparr>"

text \<open>The contingency C that switches the circuit 102-104 out, and the data objects that
  a study creates for the network.\<close>

definition cont_net :: contingency where
  "cont_net = Contingency_init [(102, 104, ''1'', 0)] [] [] [] [] [] ''C'' []"

definition study_net :: study_data where
  "study_net =
     \<lparr>sd_circuit =
        \<lparr>br_tx = False, br_flag = 2, br_sid = 1,
         br_df_status =
           \<lparr>df_index = [IntL 0, IntL 1],
            df_columns = [''FROMNUMBER'' \<mapsto> [Num 102, Num 104],
                          ''TONUMBER'' \<mapsto> [Num 104, Num 102],
                          ''STATUS'' \<mapsto> [Num 1, Num 1], ''BASE_CASE'' \<mapsto> [Num 1, Num 1]]\<rparr>,
         br_df_loading =
           \<lparr>df_index = [IntL 0, IntL 1],
            df_columns = [''FROMNUMBER'' \<mapsto> [Num 102, Num 104],
                          ''TONUMBER'' \<mapsto> [Num 104, Num 102],
                          ''RATEA'' \<mapsto> [Num 100, Num 100], ''RATEB'' \<mapsto> [Num 100, Num 100],
                          ''RATEC'' \<mapsto> [Num 100, Num 100], ''MVA'' \<mapsto> [Num 50, Num 50],
                          ''BASE_CASE'' \<mapsto> [Num 50, Num 50]]\<rparr>\<rparr>,
      sd_tx2 =
        \<lparr>br_tx = True, br_flag = 6, br_sid = 1,
         br_df_status =
           \<lparr>df_index = [IntL 0, IntL 1],
            df_columns = [''FROMNUMBER'' \<mapsto> [Num 103, Num 104],
                          ''TONUMBER'' \<mapsto> [Num 104, Num 103],
                          ''STATUS'' \<mapsto> [Num 1, Num 1], ''BASE_CASE'' \<mapsto> [Num 1, Num 1]]\<rparr>,
         br_df_loading =
           \<lparr>df_index = [IntL 0, IntL 1],
            df_columns = [''FROMNUMBER'' \<mapsto> [Num 103, Num 104],
                          ''TONUMBER'' \<mapsto> [Num 104, Num 103],
                          ''RATEA'' \<mapsto> [Num 100, Num 100], ''RATEB'' \<mapsto> [Num 100, Num 100],
                          ''RATEC'' \<mapsto> [Num 100, Num 100], ''MVA'' \<mapsto> [Num 30, Num 30],
                          ''BASE_CASE'' \<mapsto> [Num 30, Num 30]]\<rparr>\<rparr>,
      sd_tx3 =
        \<lparr>t3_flag = 2, t3_sid = 1,
         t3_df =
           \<lparr>df_index = [IntL 0],
            df_columns = [''WIND1NUMBER'' \<mapsto> [Num 101], ''WIND2NUMBER'' \<mapsto> [Num 102],
                          ''WIND3NUMBER'' \<mapsto> [Num 103], ''STATUS'' \<mapsto> [Num 1],
                          ''BASE_CASE'' \<mapsto> [Num 1]]\<rparr>\<rparr>,
      sd_tx3_wind =
        \<lparr>tw_flag = 3, tw_sid = 1,
         tw_df_status =
           \<lparr>df_index = [IntL 0, IntL 1, IntL 2],
            df_columns = [''WNDBUSNUMBER'' \<mapsto> [Num 101, Num 102, Num 103],
                          ''WIND1NUMBER'' \<mapsto> [Num 101, Num 101, Num 101],
                          ''WIND2NUMBER'' \<mapsto> [Num 102, Num 102, Num 102],
                          ''WIND3NUMBER'' \<mapsto> [Num 103, Num 103, Num 103],
                          ''STATUS'' \<mapsto> [Num 1, Num 1, Num 1],
                          ''BASE_CASE'' \<mapsto> [Num 1, Num 1, Num 1]]\<rparr>,
         tw_df_loading =
           \<lparr>df_index = [IntL 0, IntL 1, IntL 2],
            df_columns = [''WNDBUSNUMBER'' \<mapsto> [Num 101, Num 102, Num 103],
                          ''WIND1NUMBER'' \<mapsto> [Num 101, Num 101, Num 101],
                          ''WIND2NUMBER'' \<mapsto> [Num 102, Num 102, Num 102],
                          ''WIND3NUMBER'' \<mapsto> [Num 103, Num 103, Num 103],
                          ''RATEA'' \<mapsto> [Num 200, Num 200, Num 200],
                          ''RATEB'' \<mapsto> [Num 200, Num 200, Num 200],
                          ''RATEC'' \<mapsto> [Num 200, Num 200, Num 200],
                          ''MVA'' \<mapsto> [Num 80, Num 50, Num 30],
                          ''BASE_CASE'' \<mapsto> [Num 80, Num 50, Num 30]]\<rparr>\<rparr>,
      sd_bus =
        \<lparr>bd_sid = 1, bd_flag = 2,
         df_state =
           \<lparr>df_index = [IntL 101, IntL 102, IntL 103, IntL 104],
            df_columns = [''NUMBER'' \<mapsto> [Num 101, Num 102, Num 103, Num 104],
                          ''BASE'' \<mapsto> [Num 400, Num 220, Num 110, Num 220],
                          ''TYPE'' \<mapsto> [Num 3, Num 1, Num 1, Num 1],
                          ''BASE_CASE'' \<mapsto> [Num 3, Num 1, Num 1, Num 1]]\<rparr>,
         df_voltage_steady =
           \<lparr>df_index = [IntL 101, IntL 102, IntL 103, IntL 104],
            df_columns = [''NUMBER'' \<mapsto> [Num 101, Num 102, Num 103, Num 104],
                          ''BASE'' \<mapsto> [Num 400, Num 220, Num 110, Num 220],
                          ''PU'' \<mapsto> [Num 1, Num 1, Num 1, Num 1],
                          ''LOWER_LIMIT'' \<mapsto> [Num (360 / 380), Num (200 / 220), Num (99 / 110),
                                              Num (200 / 220)],
                          ''UPPER_LIMIT'' \<mapsto> [Num (410 / 380), Num (240 / 220), Num (120 / 110),
                                              Num (240 / 220)],
                          ''BASE_CASE'' \<mapsto> [Num 1, Num 1, Num 1, Num 1]]\<rparr>,
         df_voltage_step =
           \<lparr>df_index = [IntL 101, IntL 102, IntL 103, IntL 104],
            df_columns = [''NUMBER'' \<mapsto> [Num 101, Num 102, Num 103, Num 104],
                          ''BASE'' \<mapsto> [Num 400, Num 220, Num 110, Num 220],
                          ''PU'' \<mapsto> [Num 1, Num 1, Num 1, Num 1],
                          ''BASE_CASE'' \<mapsto> [Num 1, Num 1, Num 1, Num 1]]\<rparr>\<rparr>,
      sd_fixed_shunt = \<lparr>sh_fixed = True, sh_flag = 4, sh_sid = 1, sh_df_status = empty_frame\<rparr>,
      sd_switched_shunt = \<lparr>sh_fixed = False, sh_flag = 4, sh_sid = 1,
                           sh_df_status = empty_frame\<rparr>,
      sd_machine =
        \<lparr>mc_flag = 4, mc_sid = 1,
         mc_df_loading =
           \<lparr>df_index = [IntL 0],
            df_columns = [''NUMBER'' \<mapsto> [Num 101], ''STATUS'' \<mapsto> [Num 1],
                          ''QGEN'' \<mapsto> [Num 10], ''BASE_CASE'' \<mapsto> [Num 10]]\<rparr>\<rparr>\<rparr>"

subsection \<open>Example networks\<close>

text \<open>A busbar table with one bus at 1.0 pu in the base case, a circuit contingency A with
  1.0625 pu and a shunt contingency B with 1.0 pu after the step-change solve.\<close>

definition bus_example :: bus_data where
  "bus_example =
     \<lparr>bd_sid = 1, bd_flag = 2, df_state = empty_frame, df_voltage_steady = empty_frame,
      df_voltage_step =
        \<lparr>df_index = [IntL 101],
         df_columns = [''NUMBER'' \<mapsto> [Num 101], ''BASE'' \<mapsto> [Num 220], ''PU'' \<mapsto> [Num 1],
                       ''BASE_CASE'' \<mapsto> [Num 1], ''A'' \<mapsto> [Num (17 / 16)],
                       ''B'' \<mapsto> [Num 1]]\<rparr>\<rparr>"

text \<open>The same bus with a contingency C whose step-change column is not-a-number.\<close>

definition bus_example_nan :: bus_data where
  "bus_example_nan =
     \<lparr>bd_sid = 1, bd_flag = 2, df_state = empty_frame, df_voltage_steady = empty_frame,
      df_voltage_step =
        \<lparr>df_index = [IntL 101],
         df_columns = [''NUMBER'' \<mapsto> [Num 101], ''BASE'' \<mapsto> [Num 220], ''PU'' \<mapsto> [Num 1],
                       ''BASE_CASE'' \<mapsto> [Num 1], ''C'' \<mapsto> [NaN]]\<rparr>\<rparr>"

text \<open>A loading table with one element of rating -1 MVA that carries no load in
  contingency A.\<close>

definition loading_example :: frame where
  "loading_example =
     \<lparr>df_index = [IntL 0],
      df_columns = [''RATEA'' \<mapsto> [Num (- 1)], ''MVA'' \<mapsto> [Num 0], ''BASE_CASE'' \<mapsto> [Num 0],
                    ''A'' \<mapsto> [Num 0]]\<rparr>"

definition branch_example :: branch_data where
  "branch_example =
     \<lparr>br_tx = False, br_flag = 2, br_sid = 1, br_df_status = empty_frame,
      br_df_loading = loading_example\<rparr>"

definition tx3wnd_example :: tx3wnd_data where
  "tx3wnd_example =
     \<lparr>tw_flag = 3, tw_sid = 1, tw_df_status = empty_frame, tw_df_loading = loading_example\<rparr>"

section \<open>Theorems\<close>

text \<open>
  C5. The convergence message of a contingency is determined by the pair
  (step-change-convergent, steady-state-convergent): both true gives "Convergent", both
  false "Non-Convergent", step true and steady false "Non-Convergent Steady State", step
  false and steady true "Non-Convergent Step Change".
\<close>

theorem convergence_message_table:
  "convergence_message (c\<lparr>convergent_v_step := True, convergent_v_steady := True\<rparr>)
     = ''Convergent''
   \<and> convergence_message (c\<lparr>convergent_v_step := False, convergent_v_steady := False\<rparr>)
     = ''Non-Convergent''
   \<and> convergence_message (c\<lparr>convergent_v_step := True, convergent_v_steady := False\<rparr>)
     = ''Non-Convergent Steady State''
   \<and> convergence_message (c\<lparr>convergent_v_step := False, convergent_v_steady := True\<rparr>)
     = ''Non-Convergent Step Change''"
  by (simp add: convergence_message_def Contingency_convergent_def
      Contingency_non_convergent_def Contingency_non_convergent_vstep_def
      Contingency_non_convergent_vsteady_def)


subsection \<open>Facts about frames\<close>

lemmas frame_defs = mk_frame_def fit_def getitem_def setitem_list_def setitem_scalar_def
  series_at_def setitem_series_def column_or_nan_def loc_set_def loc_get_def cell_at_def
  loc_mask_def union_index_def sub_axis0_def concat_rows_def filter_rows_def
  drop_duplicates_def df_empty_def empty_frame_def loc_mask_set_def select_columns_def
  ints_def reals_def cell_isin_def range_index_def and_then_def

lemmas name_defs = Contingency_bc_def Contingency_compliant_def Contingency_v_step_lbl_def
  Contingency_rate_for_checking_def Busbars_bus_def Busbars_state_def Busbars_nominal_def
  Busbars_voltage_def Busbars_lower_limit_def Busbars_upper_limit_def Branches_status_def
  Branches_loading_def Branches_ratea_def Branches_rateb_def Branches_ratec_def
  Branches_from_bus_def Branches_to_bus_def Tx3_wind1_def Tx3_wind2_def Tx3_wind3_def
  Tx3_this_winding_def Machines_qgen_def

lemmas float_defs = fsub_def fabs_def fle_def flt_def feq_def

lemma map_of_zip_update:
  "length xs = length ls \<Longrightarrow>
   map_of (zip ls (map (\<lambda>(l', x). if l' = l then v else x) (zip ls xs))) l'
     = (if l' = l then (if l \<in> set ls then Some v else None) else map_of (zip ls xs) l')"
  by (induction xs ls rule: list_induct2) auto

lemma series_at_append_nan: "series_at (s @ [(l, NaN)]) l' = series_at s l'"
  by (simp add: series_at_def map_add_def split: option.splits)

lemma loc_set_index:
  "df_index (loc_set d l k v) = (if l \<in> set (df_index d) then df_index d else df_index d @ [l])"
  by (simp add: loc_set_def Let_def)

lemma column_loc_set_other:
  "c \<noteq> k \<Longrightarrow> column_or_nan (loc_set d l k v) c
     = (if l \<in> set (df_index d) then column_or_nan d c else column_or_nan d c @ [NaN])"
  by (auto simp: loc_set_def Let_def column_or_nan_def replicate_append_same split: option.splits)

lemma column_loc_set_same:
  "column_or_nan (loc_set d l k v) k
     = (let idx = (if l \<in> set (df_index d) then df_index d else df_index d @ [l]);
            col = (if l \<in> set (df_index d) then column_or_nan d k else column_or_nan d k @ [NaN])
        in map (\<lambda>(l', x). if l' = l then v else x) (zip idx col))"
  by (auto simp: loc_set_def Let_def column_or_nan_def replicate_append_same split: option.splits)

lemma aligned_loc_set: "aligned d c \<Longrightarrow> aligned (loc_set d l k v) c"
  by (cases "c = k")
    (auto simp: aligned_def loc_set_index column_loc_set_other column_loc_set_same Let_def)

lemma cell_at_loc_set:
  assumes "aligned d c"
  shows "cell_at (loc_set d l k v) l' c = (if l' = l \<and> c = k then v else cell_at d l' c)"
proof (cases "c = k")
  case False
  with assms show ?thesis
    by (auto simp: cell_at_def loc_set_index column_loc_set_other aligned_def series_at_append_nan)
next
  case True
  define ls where "ls = (if l \<in> set (df_index d) then df_index d else df_index d @ [l])"
  define xs where
    "xs = (if l \<in> set (df_index d) then column_or_nan d k else column_or_nan d k @ [NaN])"
  have len: "length xs = length ls"
    using assms True by (simp add: ls_def xs_def aligned_def)
  have mem: "l \<in> set ls"
    by (simp add: ls_def)
  have old: "series_at (zip ls xs) l' = cell_at d l' k"
    using assms True by (simp add: ls_def xs_def cell_at_def aligned_def series_at_append_nan)
  have "cell_at (loc_set d l k v) l' k
      = series_at (zip ls (map (\<lambda>(l', x). if l' = l then v else x) (zip ls xs))) l'"
    by (simp add: cell_at_def loc_set_index column_loc_set_same ls_def xs_def Let_def)
  also have "\<dots> = (if l' = l then v else series_at (zip ls xs) l')"
    using mem by (simp add: series_at_def map_of_zip_update [OF len])
  finally show ?thesis
    using True old by simp
qed

text \<open>The rows that a compliance check writes: after the loop over the dictionary of
  flags, the cell of the row "Compliant" in the column of a name holds the flag of that
  name.\<close>

lemma step_fold_cell:
  assumes "aligned d c" and "L1 \<noteq> L2"
  shows "aligned (fold (\<lambda>(key, value) d. loc_set (loc_set d L1 key (Flag value)) L2 key x) kvs d) c
       \<and> cell_at (fold (\<lambda>(key, value) d. loc_set (loc_set d L1 key (Flag value)) L2 key x) kvs d) L1 c
           = (case map_of (rev kvs) c of Some b \<Rightarrow> Flag b | None \<Rightarrow> cell_at d L1 c)"
  using assms(1)
proof (induction kvs arbitrary: d)
  case Nil
  then show ?case by simp
next
  case (Cons kv kvs)
  obtain key val where kv: "kv = (key, val)" by (cases kv)
  let ?d = "loc_set (loc_set d L1 key (Flag val)) L2 key x"
  have al: "aligned ?d c"
    using Cons.prems by (simp add: aligned_loc_set)
  have cell: "cell_at ?d L1 c = (if c = key then Flag val else cell_at d L1 c)"
    using Cons.prems assms(2) by (simp add: cell_at_loc_set aligned_loc_set)
  from Cons.IH [OF al] cell show ?case
    by (auto simp: kv split: option.splits)
qed

lemma steady_fold_cell:
  assumes "aligned d c"
  shows "aligned (fold (\<lambda>(key, value) d. loc_set d L1 key (Flag value)) kvs d) c
       \<and> cell_at (fold (\<lambda>(key, value) d. loc_set d L1 key (Flag value)) kvs d) L1 c
           = (case map_of (rev kvs) c of Some b \<Rightarrow> Flag b | None \<Rightarrow> cell_at d L1 c)"
  using assms
proof (induction kvs arbitrary: d)
  case Nil
  then show ?case by simp
next
  case (Cons kv kvs)
  obtain key val where kv: "kv = (key, val)" by (cases kv)
  let ?d = "loc_set d L1 key (Flag val)"
  have al: "aligned ?d c"
    using Cons.prems by (simp add: aligned_loc_set)
  have cell: "cell_at ?d L1 c = (if c = key then Flag val else cell_at d L1 c)"
    using Cons.prems by (simp add: cell_at_loc_set)
  from Cons.IH [OF al] cell show ?case
    by (auto simp: kv split: option.splits)
qed

lemma map_of_rev_graph:
  "c \<in> set cs \<Longrightarrow> map_of (rev (map (\<lambda>c. (c, g c)) cs)) c = Some (g c)"
  by (induction cs) (auto simp: map_add_def split: option.splits dest: map_of_SomeD)

lemma map_of_graph: "c \<in> set cs \<Longrightarrow> map_of (map (\<lambda>c. (c, g c)) cs) c = Some (g c)"
  by (induction cs) auto

subsection \<open>Step-change compliance\<close>

text \<open>The flag returned for a checked name is the flag computed from its column.\<close>

lemma step_check_cell:
  assumes res: "BusData_check_compliance bd cont_names (Some limit) = Inr (bd', res)"
    and mem: "cont \<in> set cont_names"
    and al: "aligned (df_voltage_step bd) cont"
  shows "map_of res cont = Some (Flag (step_compliant (df_voltage_step bd) cont limit))"
proof -
  let ?df = "df_voltage_step bd"
  let ?rows = "\<lambda>c. map snd (filter fst
                 (zip (map Not (map (\<lambda>l. l \<in> set rows_to_ignore) (df_index ?df)))
                      (zip (df_index ?df) (column_or_nan ?df c))))"
  let ?base = "zip (df_index ?df) (column_or_nan ?df Busbars_voltage)"
  let ?g = "\<lambda>c. list_all (\<lambda>(l, x). fle x (Num limit))
                  (map (\<lambda>(l, x). (l, fabs x)) (sub_axis0 (?rows c) ?base))"
  let ?kvs = "map (\<lambda>c. (c, ?g c)) cont_names"
  let ?f = "\<lambda>(key, value) d. loc_set (loc_set d (StrL Contingency_compliant) key (Flag value))
              (StrL Contingency_v_step_lbl) key (Num limit)"
  let ?df' = "fold ?f ?kvs ?df"
  from res have left:
    "loc_mask ?df (map Not (map (\<lambda>l. l \<in> set rows_to_ignore) (df_index ?df))) cont_names
      = Inr (map (\<lambda>c. (c, ?rows c)) cont_names)"
    by (auto simp: BusData_check_compliance_def loc_mask_def and_then_def split: if_splits)
  from res have base: "getitem ?df Busbars_voltage = Inr ?base"
    by (auto simp: BusData_check_compliance_def getitem_def and_then_def column_or_nan_def
        split: sum.splits option.splits)
  from res left base have "loc_get ?df' (StrL Contingency_compliant) cont_names = Inr res"
    by (auto simp: BusData_check_compliance_def and_then_def Let_def comp_def case_prod_beta
        split: sum.splits)
  then have "res = map (\<lambda>c. (c, cell_at ?df' (StrL Contingency_compliant) c)) cont_names"
    by (auto simp: loc_get_def split: if_splits)
  then have "map_of res cont = Some (cell_at ?df' (StrL Contingency_compliant) cont)"
    using mem by (simp add: map_of_graph)
  moreover have "cell_at ?df' (StrL Contingency_compliant) cont = Flag (?g cont)"
    using step_fold_cell [OF al, of "StrL Contingency_compliant" "StrL Contingency_v_step_lbl"
        "Num limit" ?kvs] mem
    by (simp add: map_of_rev_graph Contingency_compliant_def Contingency_v_step_lbl_def)
  ultimately show ?thesis
    by (simp add: step_compliant_def comp_def)
qed

text \<open>A column of not-a-number is never compliant when the table has a bus row.\<close>

lemma step_compliant_nan:
  assumes nan: "df_columns df cont = Some (replicate (length (df_index df)) NaN)"
    and bus: "list_ex (\<lambda>l. l \<notin> set rows_to_ignore) (df_index df)"
  shows "\<not> step_compliant df cont limit"
proof -
  define left where
    "left = map snd (filter fst (zip (map (\<lambda>l. l \<notin> set rows_to_ignore) (df_index df))
                                    (zip (df_index df) (column_or_nan df cont))))"
  define base where "base = zip (df_index df) (column_or_nan df Busbars_voltage)"
  have col: "column_or_nan df cont = replicate (length (df_index df)) NaN"
    using nan by (simp add: column_or_nan_def)
  have vals: "v = NaN" if "(l, v) \<in> set left" for l v
    using that by (auto simp: left_def col set_zip)
  from bus obtain l0 where l0: "l0 \<in> set (df_index df)" "l0 \<notin> set rows_to_ignore"
    by (auto simp: list_ex_iff)
  then obtain i where i: "i < length (df_index df)" "df_index df ! i = l0"
    by (auto simp: in_set_conv_nth)
  have "(True, (l0, NaN)) \<in> set (zip (map (\<lambda>l. l \<notin> set rows_to_ignore) (df_index df))
                                      (zip (df_index df) (column_or_nan df cont)))"
    using i l0 by (auto simp: set_zip col intro!: exI [of _ i])
  then have inleft: "(l0, NaN) \<in> set left"
    by (force simp: left_def)
  then have "l0 \<in> set (union_index (map fst left) (map fst base))"
    by (force simp: union_index_def)
  moreover have "series_at left l0 = NaN"
  proof (cases "map_of left l0")
    case None
    then show ?thesis by (simp add: series_at_def)
  next
    case (Some v)
    then have "(l0, v) \<in> set left" by (rule map_of_SomeD)
    with vals Some show ?thesis by (simp add: series_at_def)
  qed
  ultimately have "(l0, NaN) \<in> set (map (\<lambda>(l, x). (l, fabs x)) (sub_axis0 left base))"
    by (force simp: sub_axis0_def fsub_def fabs_def)
  moreover have "\<not> (case (l0, NaN) of (l, x) \<Rightarrow> fle x (Num limit))"
    by (simp add: fle_def)
  ultimately have "\<not> list_all (\<lambda>(l, x). fle x (Num limit))
                        (map (\<lambda>(l, x). (l, fabs x)) (sub_axis0 left base))"
    unfolding list_all_iff by blast
  then show ?thesis
    by (simp add: step_compliant_def left_def base_def)
qed

text \<open>
  C10. If the step-change column of a contingency holds not-a-number in every row, as
  \<^verbatim>\<open>update_voltages\<close> writes it for a contingency that was not set up or did not
  converge, the step-change compliance check returns False for that contingency, whatever
  the limit.  The table has at least one bus row.
\<close>

theorem step_compliance_nan_is_false:
  assumes "BusData_check_compliance bd cont_names (Some limit) = Inr (bd', res)"
    and "cont \<in> set cont_names"
    and "df_columns (df_voltage_step bd) cont
           = Some (replicate (length (df_index (df_voltage_step bd))) NaN)"
    and "list_ex (\<lambda>l. l \<notin> set rows_to_ignore) (df_index (df_voltage_step bd))"
  shows "map_of res cont = Some (Flag False)"
proof -
  have "aligned (df_voltage_step bd) cont"
    using assms(3) by (simp add: aligned_def column_or_nan_def)
  from step_check_cell [OF assms(1,2) this] step_compliant_nan [OF assms(3,4)]
  show ?thesis by simp
qed

theorem step_compliance_nan_is_false_witness:
  "(case BusData_check_compliance bus_example_nan [''C''] (Some (1 / 10)) of
      Inl e \<Rightarrow> False
    | Inr (bd', res) \<Rightarrow> map_of res ''C'' = Some (Flag False))"
proof -
  have "\<exists>bd' res. BusData_check_compliance bus_example_nan [''C''] (Some (1 / 10)) = Inr (bd', res)"
    by (simp add: BusData_check_compliance_def bus_example_nan_def rows_to_ignore_def
        frame_defs name_defs float_defs Let_def)
  then obtain bd' res where
    r: "BusData_check_compliance bus_example_nan [''C''] (Some (1 / 10)) = Inr (bd', res)"
    by blast
  have "map_of res ''C'' = Some (Flag False)"
    by (rule step_compliance_nan_is_false [OF r])
      (simp_all add: bus_example_nan_def rows_to_ignore_def name_defs)
  with r show ?thesis by simp
qed

text \<open>
  C1. Step-change compliance of a contingency should hold exactly when the voltage of every
  bus differs from its base-case voltage by at most the limit of the classification (0.10
  for circuit switching, 0.03 for shunt switching).  The study checks the circuit-switching
  names first and the shunt-switching names second, on the same table.  In the example the
  circuit contingency A differs by 0.0625, within its limit of 0.10, and is compliant; the
  shunt contingency B does not differ from the base case at all, yet the second check
  returns False for it: the
  first check has added the rows "Compliant" and "Voltage Step Limit", the second removes
  them from the contingency columns but not from the base voltages it subtracts, and the
  subtraction brings them back as not-a-number.
\<close>

theorem step_compliance_second_check:
  "(case BusData_check_compliance bus_example [''A'']
           (Some EirGridThresholds_cont_step_change_limit) of
      Inl e \<Rightarrow> []
    | Inr (bd1, r1) \<Rightarrow>
        (case BusData_check_compliance bd1 [''B'']
                (Some EirGridThresholds_reactor_step_change_limit) of
           Inl e \<Rightarrow> []
         | Inr (bd2, r2) \<Rightarrow> r1 @ r2))
   = [(''A'', Flag True), (''B'', Flag False)]"
  by (simp add: BusData_check_compliance_def bus_example_def rows_to_ignore_def
      EirGridThresholds_cont_step_change_limit_def EirGridThresholds_reactor_step_change_limit_def
      frame_defs name_defs float_defs Let_def)

text \<open>
  C2. Loading compliance should leave out every element whose rating is at most the
  threshold of 0 MVA.  The check of branches and two-winding transformers leaves out only
  the elements whose rating equals the threshold: the element of the example, rated -1 MVA
  and carrying no load, makes contingency A non-compliant there, while the check of
  three-winding transformer windings leaves the same element out.
\<close>

theorem branch_loading_negative_rating:
  "map_sum id snd (BranchData_check_compliance branch_example [''A''])
     = Inr [(''A'', Flag False)]
   \<and> map_sum id snd (Tx3WndData_check_compliance tx3wnd_example [''A''])
     = Inr [(''A'', Flag True)]"
  by (simp add: BranchData_check_compliance_def Tx3WndData_check_compliance_def
      branch_condition_def tx3wnd_condition_def branch_example_def tx3wnd_example_def
      loading_example_def EirGridThresholds_rating_threshold_def
      frame_defs name_defs float_defs Let_def)


subsection \<open>The within-limits check of the search\<close>

lemma filter_zip_values:
  "length idx = length col \<Longrightarrow>
   map snd (map snd (filter fst (zip m (zip idx col)))) = map snd (filter fst (zip m col))"
proof (induction m arbitrary: idx col)
  case Nil
  then show ?case by simp
next
  case (Cons b m)
  then show ?case by (cases idx; cases col) auto
qed

lemma zip_filter_zip:
  "zip (map snd (filter fst (zip m a))) (map snd (filter fst (zip m b)))
     = map snd (filter fst (zip m (zip a b)))"
proof (induction m arbitrary: a b)
  case Nil
  then show ?case by simp
next
  case (Cons x m)
  then show ?case by (cases a; cases b) auto
qed

lemma list_all_filter_zip:
  "list_all P (map snd (filter fst (zip m xs))) = list_all (\<lambda>(b, x). \<not> b \<or> P x) (zip m xs)"
proof (induction m arbitrary: xs)
  case Nil
  then show ?case by simp
next
  case (Cons b m)
  then show ?case by (cases xs) auto
qed

lemma map_zip_second:
  "length a = length b \<Longrightarrow> map (\<lambda>(l, x). f x) (zip a b) = map f b"
  by (induction a b rule: list_induct2) auto

lemma within_limits_upper:
  assumes res: "BusData_check_within_limits p bd cont ignore w = Inr (bd', ok, tb, mv)"
    and al1: "aligned (df_voltage_steady bd') Busbars_bus"
    and al2: "aligned (df_voltage_steady bd') Busbars_upper_limit"
  shows "ok = upper_limit_ok (df_voltage_steady bd') cont ignore"
proof -
  let ?df = "df_voltage_steady bd'"
  from res have upd: "BusData_update_voltages p bd cont False False w = Inr bd'"
    by (auto simp: BusData_check_within_limits_def and_then_def
        split: sum.splits list.splits if_splits prod.splits)
  then have al3: "aligned ?df cont"
    by (auto simp: BusData_update_voltages_def and_then_def setitem_list_def aligned_def
        column_or_nan_def split: sum.splits if_splits prod.splits)
  let ?num = "column_or_nan ?df Busbars_bus"
  let ?v = "column_or_nan ?df cont"
  let ?u = "column_or_nan ?df Busbars_upper_limit"
  let ?m = "map (\<lambda>(l, x). \<not> cell_isin x ignore) (zip (df_index ?df) ?num)"
  have m: "?m = map (\<lambda>x. \<not> cell_isin x ignore) ?num"
    using al1 by (simp add: aligned_def map_zip_second)
  from res upd have ok: "ok = list_all (\<lambda>(x, hi). fle x hi)
      (zip (map snd (map snd (filter fst (zip ?m (zip (df_index ?df) ?v)))))
           (map snd (map snd (filter fst (zip ?m (zip (df_index ?df) ?u))))))"
    by (auto simp: BusData_check_within_limits_def and_then_def getitem_def loc_mask_def
        column_or_nan_def Let_def
        split: sum.splits list.splits if_splits prod.splits option.splits)
  let ?m' = "map (\<lambda>x. \<not> cell_isin x ignore) ?num"
  have l3: "length (df_index ?df) = length ?v"
    using al3 by (simp add: aligned_def)
  have l2: "length (df_index ?df) = length ?u"
    using al2 by (simp add: aligned_def)
  have "ok = list_all (\<lambda>(x, hi). fle x hi)
      (zip (map snd (filter fst (zip ?m' ?v))) (map snd (filter fst (zip ?m' ?u))))"
    using ok by (simp only: m filter_zip_values [OF l3] filter_zip_values [OF l2])
  also have "\<dots> = list_all (\<lambda>(b, x, hi). \<not> b \<or> fle x hi) (zip ?m' (zip ?v ?u))"
    by (simp add: zip_filter_zip list_all_filter_zip split_def)
  also have "\<dots> = upper_limit_ok ?df cont ignore"
    by (auto simp: upper_limit_ok_def zip_map1 list_all_iff split_def)
  finally show ?thesis .
qed

lemma search_loop_stops: "within_limits s \<Longrightarrow> search_loop p c s w = (Inr s, w)"
  by (subst search_loop.simps) simp

lemmas bus_defs = BusData_check_within_limits_def BusData_update_voltages_def
  BusData_get_voltages_def BusData_update_def BusData_init_def BusData_add_voltage_limits_def
  BusData_add_islanded_busbars_def EirGridThresholds_steady_state_limits_def

text \<open>What the within-limits check does, for every engine: it stores the voltages that
  the engine reports, leaves the other columns as they are, and compares with the upper
  limit only.  The search records the result of the check, stops at once when it is true,
  and whenever it returns as successful the table holds the latest voltages, each at or
  below its upper limit at the buses that are not ignored.\<close>

lemma update_voltages_steady:
  assumes "BusData_update_voltages p bd cont False False w = Inr bd'"
  shows "\<exists>nominal voltages. BusData_get_voltages p bd w = Inr (nominal, voltages)
           \<and> length voltages = length (df_index (df_voltage_steady bd))
           \<and> bd' = bd\<lparr>df_voltage_steady :=
                       (df_voltage_steady bd)\<lparr>df_columns :=
                          (df_columns (df_voltage_steady bd))(cont \<mapsto> reals voltages)\<rparr>\<rparr>"
  using assms
  by (auto simp: BusData_update_voltages_def and_then_def setitem_list_def reals_def
      split: sum.splits if_splits prod.splits)

lemma get_voltages_cong:
  "bd_sid bd' = bd_sid bd \<Longrightarrow> bd_flag bd' = bd_flag bd
     \<Longrightarrow> BusData_get_voltages p bd' w = BusData_get_voltages p bd w"
  by (simp add: BusData_get_voltages_def)

lemma check_within_limits_stores:
  assumes "BusData_check_within_limits p bd cont ignore w = Inr (bd', ok, tb, mv)"
  shows "\<exists>nominal voltages. BusData_get_voltages p bd' w = Inr (nominal, voltages)
           \<and> df_columns (df_voltage_steady bd') cont = Some (reals voltages)"
    and "aligned (df_voltage_steady bd) col \<Longrightarrow> aligned (df_voltage_steady bd') col"
proof -
  from assms obtain bd1 where
    upd: "BusData_update_voltages p bd cont False False w = Inr bd1" and eq: "bd' = bd1"
    by (auto simp: BusData_check_within_limits_def and_then_def
        split: sum.splits list.splits if_splits prod.splits)
  from update_voltages_steady [OF upd] obtain nominal voltages where
    g: "BusData_get_voltages p bd w = Inr (nominal, voltages)"
    and l: "length voltages = length (df_index (df_voltage_steady bd))"
    and b: "bd1 = bd\<lparr>df_voltage_steady :=
                       (df_voltage_steady bd)\<lparr>df_columns :=
                          (df_columns (df_voltage_steady bd))(cont \<mapsto> reals voltages)\<rparr>\<rparr>"
    by blast
  from g b eq show "\<exists>nominal voltages. BusData_get_voltages p bd' w = Inr (nominal, voltages)
           \<and> df_columns (df_voltage_steady bd') cont = Some (reals voltages)"
    by (simp add: BusData_get_voltages_def)
  show "aligned (df_voltage_steady bd) col \<Longrightarrow> aligned (df_voltage_steady bd') col"
    using l b eq by (auto simp: aligned_def column_or_nan_def reals_def split: option.splits)
qed


lemma search_check_result:
  assumes "search_check p c s w = (Inr s1, w1)"
  shows "\<exists>bd' ok tb mv.
           BusData_check_within_limits p (ss_bus s) (cname c) (busbars_to_ignore c) w
             = Inr (bd', ok, tb, mv)
           \<and> s1 = s\<lparr>ss_bus := bd', within_limits := ok, target_bus := Some (IntL 0)\<rparr>
           \<and> w1 = w"
  using assms
  by (auto simp: search_check_def ReactiveCompensationLimits_test_target_bus_def
      split: sum.splits prod.splits)

lemma search_check_sound:
  assumes chk: "search_check p c s w = (Inr s1, w1)"
    and a1: "aligned (df_voltage_steady (ss_bus s)) Busbars_bus"
    and a2: "aligned (df_voltage_steady (ss_bus s)) Busbars_upper_limit"
  shows "search_sound p c s1 w1"
proof -
  from search_check_result [OF chk] obtain bd' ok tb mv where
    r: "BusData_check_within_limits p (ss_bus s) (cname c) (busbars_to_ignore c) w
          = Inr (bd', ok, tb, mv)"
    and s1: "s1 = s\<lparr>ss_bus := bd', within_limits := ok, target_bus := Some (IntL 0)\<rparr>"
    and w1: "w1 = w"
    by blast
  have b1: "aligned (df_voltage_steady bd') Busbars_bus"
    using check_within_limits_stores(2) [OF r a1] .
  have b2: "aligned (df_voltage_steady bd') Busbars_upper_limit"
    using check_within_limits_stores(2) [OF r a2] .
  have ok: "ok = upper_limit_ok (df_voltage_steady bd') (cname c) (busbars_to_ignore c)"
    using within_limits_upper [OF r b1 b2] .
  from check_within_limits_stores(1) [OF r] ok b1 b2 s1 w1 show ?thesis
    by (simp add: search_sound_def)
qed

lemma search_body_sound:
  assumes body: "search_body p c s w = (Inr s1, w1)"
    and a1: "aligned (df_voltage_steady (ss_bus s)) Busbars_bus"
    and a2: "aligned (df_voltage_steady (ss_bus s)) Busbars_upper_limit"
  shows "search_sound p c s1 w1"
  using body a1 a2
  by (auto simp: search_body_def Let_def search_sound_def
      split: prod.splits sum.splits if_splits option.splits
      dest!: search_check_sound [where p = p and c = c])

lemma search_loop_sound:
  "search_sound p c s w \<Longrightarrow> search_loop p c s w = (Inr s', w') \<Longrightarrow> search_sound p c s' w'"
proof (induction p c s w rule: search_loop.induct)
  case (1 p c s w)
  show ?case
  proof (cases "\<not> within_limits s \<and> target_voltage s > ReactiveCompensationLimits_vmin_target
         \<and> target_q s > ReactiveCompensationLimits_q_max")
    case True
    with "1.prems"(2) obtain s1 w1 where
      body: "search_body p c s w = (Inr s1, w1)" and loop: "search_loop p c s1 w1 = (Inr s', w')"
      by (subst (asm) search_loop.simps) (auto split: prod.splits sum.splits)
    from "1.prems"(1) have "search_sound p c s1 w1"
      by (intro search_body_sound [OF body]) (simp_all add: search_sound_def)
    from "1.IH" [OF True body [symmetric] refl this loop] show ?thesis .
  next
    case False
    with "1.prems" show ?thesis
      by (subst (asm) search_loop.simps) auto
  qed
qed


lemma check_within_limits_characterised:
  assumes chk: "BusData_check_within_limits p bd (cname c) (busbars_to_ignore c) w
                  = Inr (bd', ok, tb, mv)"
    and a1: "aligned (df_voltage_steady bd) Busbars_bus"
    and a2: "aligned (df_voltage_steady bd) Busbars_upper_limit"
  shows "(\<exists>nominal voltages. BusData_get_voltages p bd w = Inr (nominal, voltages)
            \<and> df_columns (df_voltage_steady bd') (cname c) = Some (reals voltages))
       \<and> ok = upper_limit_ok (df_voltage_steady bd') (cname c) (busbars_to_ignore c)
       \<and> (\<forall>s. ss_bus s = bd \<longrightarrow>
             search_check p c s w
               = (Inr (s\<lparr>ss_bus := bd', within_limits := ok, target_bus := Some (IntL 0)\<rparr>), w)
             \<and> (ok \<longrightarrow>
                  search_loop p c
                      (s\<lparr>ss_bus := bd', within_limits := ok, target_bus := Some (IntL 0)\<rparr>) w
                    = (Inr (s\<lparr>ss_bus := bd', within_limits := ok,
                               target_bus := Some (IntL 0)\<rparr>), w)))
       \<and> (\<forall>s' w'. Contingency_check_voltage_adjust_machines p c bd w = (Inr s', w')
                      \<and> within_limits s' \<longrightarrow>
             upper_limit_ok (df_voltage_steady (ss_bus s')) (cname c) (busbars_to_ignore c)
             \<and> (\<exists>nominal voltages.
                   BusData_get_voltages p (ss_bus s') w' = Inr (nominal, voltages)
                   \<and> df_columns (df_voltage_steady (ss_bus s')) (cname c)
                       = Some (reals voltages)))"
proof (intro conjI allI impI)
  have b1: "aligned (df_voltage_steady bd') Busbars_bus"
    using check_within_limits_stores(2) [OF chk a1] .
  have b2: "aligned (df_voltage_steady bd') Busbars_upper_limit"
    using check_within_limits_stores(2) [OF chk a2] .
  from chk have same: "bd_sid bd' = bd_sid bd" "bd_flag bd' = bd_flag bd"
    by (auto simp: BusData_check_within_limits_def and_then_def BusData_update_voltages_def
        setitem_list_def split: sum.splits list.splits if_splits prod.splits)
  show "\<exists>nominal voltages. BusData_get_voltages p bd w = Inr (nominal, voltages)
            \<and> df_columns (df_voltage_steady bd') (cname c) = Some (reals voltages)"
    using check_within_limits_stores(1) [OF chk] by (simp add: get_voltages_cong [OF same])
  show "ok = upper_limit_ok (df_voltage_steady bd') (cname c) (busbars_to_ignore c)"
    using within_limits_upper [OF chk b1 b2] .
next
  fix s :: search_state
  assume "ss_bus s = bd"
  with chk show "search_check p c s w
      = (Inr (s\<lparr>ss_bus := bd', within_limits := ok, target_bus := Some (IntL 0)\<rparr>), w)"
    by (simp add: search_check_def ReactiveCompensationLimits_test_target_bus_def)
next
  fix s :: search_state
  assume "ok"
  then show "search_loop p c
      (s\<lparr>ss_bus := bd', within_limits := ok, target_bus := Some (IntL 0)\<rparr>) w
    = (Inr (s\<lparr>ss_bus := bd', within_limits := ok, target_bus := Some (IntL 0)\<rparr>), w)"
    by (simp add: search_loop_stops)
next
  fix s' w'
  assume r: "Contingency_check_voltage_adjust_machines p c bd w = (Inr s', w') \<and> within_limits s'"
  then obtain s0 w0 where
    c0: "search_check p c
           \<lparr>within_limits = False, target_bus = None,
            target_voltage = ReactiveCompensationLimits_vmax_target,
            target_q = ReactiveCompensationLimits_q_min,
            targets_log = Map.empty, iter_count = 0, ss_bus = bd\<rparr> w = (Inr s0, w0)"
    and l0: "search_loop p c s0 w0 = (Inr s', w')"
    by (auto simp: Contingency_check_voltage_adjust_machines_def split: prod.splits sum.splits)
  have "search_sound p c s0 w0"
    by (rule search_check_sound [OF c0]) (simp_all add: a1 a2)
  from search_loop_sound [OF this l0] r
  have *: "upper_limit_ok (df_voltage_steady (ss_bus s')) (cname c) (busbars_to_ignore c)
      \<and> (\<exists>nominal voltages.
            BusData_get_voltages p (ss_bus s') w' = Inr (nominal, voltages)
            \<and> df_columns (df_voltage_steady (ss_bus s')) (cname c) = Some (reals voltages))"
    by (simp add: search_sound_def)
  from * show "upper_limit_ok (df_voltage_steady (ss_bus s')) (cname c) (busbars_to_ignore c)"
    by simp
  from * show "\<exists>nominal voltages.
            BusData_get_voltages p (ss_bus s') w' = Inr (nominal, voltages)
            \<and> df_columns (df_voltage_steady (ss_bus s')) (cname c) = Some (reals voltages)"
    by simp
qed

lemma engine_low_sel:
  "abusreal engine_low = (\<lambda>sid flag (n, k). (0, [220], [7 / 8]))"
  by (simp add: engine_low_def engine_def fun_eq_iff)

lemma check_low:
  "BusData_check_within_limits engine_low bus_example_steady ''C'' [] (0, 0)
     = Inr (bus_example_steady\<lparr>df_voltage_steady :=
              (df_voltage_steady bus_example_steady)\<lparr>df_columns :=
                 (df_columns (df_voltage_steady bus_example_steady))(''C'' \<mapsto> [Num (7 / 8)])\<rparr>\<rparr>,
            True, Some (IntL 101), Num (7 / 8))"
  by (simp add: bus_defs engine_low_sel bus_example_steady_def
      frame_defs name_defs float_defs Let_def)

text \<open>
  C4.  The search should end successfully exactly when every bus that is not excluded has
  a voltage within both the lower and the upper limit of its band.  The within-limits
  check compares each voltage with the upper limit only.  In the example the only bus is
  at 0.875 pu, below the lower limit 200/220 of its band: the check returns true, and the
  search returns at once as successful, without a pass and without a solve.
\<close>

theorem within_limits_ignores_lower_limit:
  "(case BusData_check_within_limits engine_low bus_example_steady ''C'' [] (0, 0) of
      Inl e \<Rightarrow> False
    | Inr (bd', ok, tb, mv) \<Rightarrow>
        ok \<and> df_columns (df_voltage_steady bd') ''C'' = Some [Num (7 / 8)]
        \<and> df_columns (df_voltage_steady bd') Busbars_lower_limit = Some [Num (200 / 220)]
        \<and> \<not> band_ok (df_voltage_steady bd') ''C'' [])
   \<and> (case Contingency_check_voltage_adjust_machines engine_low cont_example
             bus_example_steady (0, 0) of
        (Inl e, w') \<Rightarrow> False
      | (Inr s', w') \<Rightarrow>
          within_limits s' \<and> iter_count s' = 0 \<and> w' = (0, 0)
          \<and> \<not> band_ok (df_voltage_steady (ss_bus s')) ''C'' [])"
proof -
  have sel: "cname cont_example = ''C''" "busbars_to_ignore cont_example = []"
    by (simp_all add: cont_example_def Contingency_init_def)
  show ?thesis
    apply (simp add: Contingency_check_voltage_adjust_machines_def search_check_def sel check_low
        search_loop_stops ReactiveCompensationLimits_test_target_bus_def)
    apply (simp add: bus_example_steady_def band_ok_def frame_defs name_defs float_defs)
    done
qed


subsection \<open>The number of passes of the search\<close>

lemmas search_defs = search_body_def search_check_def PsseControl_run_load_flow_def
  PsseControl_check_convergent_load_flow_def MachineData_change_target_def
  MachineData_change_output_def label_int_def
  ReactiveCompensationLimits_target_shunts_def ReactiveCompensationLimits_target_machines_def
  ReactiveCompensationLimits_test_target_bus_def ReactiveCompensationLimits_q_step_def

lemma engine_high_sel:
  "fnsl engine_high = (\<lambda>t s f (n, k). (0, (Suc n, k)))"
  "solved engine_high = (\<lambda>(n, k). 0)"
  "plant_chng engine_high = (\<lambda>i t v w. (0, w))"
  "abusreal engine_high = (\<lambda>sid flag (n, k). (0, [220], [6 / 5]))"
  by (simp_all add: engine_high_def engine_def fun_eq_iff)

lemma check_high:
  "BusData_check_within_limits engine_high bus_example_high ''C'' [] (n, j)
     = Inr (bus_example_high, False, Some (IntL 101), Num (6 / 5))"
  by (simp add: bus_defs engine_high_sel bus_example_high_def bus_example_steady_def
      frame_defs name_defs float_defs Let_def)

lemma body_step:
  "search_body engine_high cont_example (search_state_after m) (n, j)
     = (Inr (search_state_after (Suc m)), (Suc n, j))"
  by (simp add: search_defs search_state_after_def engine_high_sel check_high cont_example_def
      Contingency_init_def Let_def algebra_simps)


lemma guard_after:
  "(\<not> within_limits (search_state_after m)
      \<and> target_voltage (search_state_after m) > ReactiveCompensationLimits_vmin_target
      \<and> target_q (search_state_after m) > ReactiveCompensationLimits_q_max) = (m < 100)"
proof -
  have "(ReactiveCompensationLimits_vmax_target - real m * ReactiveCompensationLimits_v_step
          > ReactiveCompensationLimits_vmin_target) = (m < 100)"
    by (auto simp: ReactiveCompensationLimits_v_step_def ReactiveCompensationLimits_vmax_target_def
        ReactiveCompensationLimits_vmin_target_def ReactiveCompensationLimits_max_iterations_def
        field_simps)
  moreover have "m < 100 \<Longrightarrow> - 5 * real (Suc m) > ReactiveCompensationLimits_q_max"
    by (simp add: ReactiveCompensationLimits_q_max_def)
  ultimately show ?thesis
    by (auto simp: search_state_after_def)
qed

lemma search_loop_run:
  assumes "\<not> within_limits s \<and> target_voltage s > ReactiveCompensationLimits_vmin_target
      \<and> target_q s > ReactiveCompensationLimits_q_max"
  shows "search_loop p c s w =
           (case search_body p c s w of
              (Inl e, w') \<Rightarrow> (Inl e, w')
            | (Inr s', w') \<Rightarrow> search_loop p c s' w')"
  using assms by (subst search_loop.simps) simp

lemma search_loop_exit:
  assumes "\<not> (\<not> within_limits s \<and> target_voltage s > ReactiveCompensationLimits_vmin_target
      \<and> target_q s > ReactiveCompensationLimits_q_max)"
  shows "search_loop p c s w = (Inr s, w)"
  using assms by (subst search_loop.simps) auto

lemma loop_after:
  "m \<le> 100 \<Longrightarrow>
   search_loop engine_high cont_example (search_state_after m) (n, j)
     = (Inr (search_state_after 100), (n + (100 - m), j))"
proof (induction "100 - m" arbitrary: m n)
  case 0
  then have "m = 100" by simp
  then show ?case
    by (simp add: search_loop_exit guard_after)
next
  case (Suc d)
  then have lt: "m < 100" and d: "d = 100 - Suc m" and le: "Suc m \<le> 100"
    by simp_all
  have "search_loop engine_high cont_example (search_state_after m) (n, j)
      = search_loop engine_high cont_example (search_state_after (Suc m)) (Suc n, j)"
    using lt by (simp add: search_loop_run guard_after body_step)
  also have "\<dots> = (Inr (search_state_after 100), (Suc n + (100 - Suc m), j))"
    by (rule Suc.hyps(1) [OF d le])
  finally show ?case
    using lt by simp
qed

lemma first_check:
  "search_check engine_high cont_example
     \<lparr>within_limits = False, target_bus = None,
      target_voltage = ReactiveCompensationLimits_vmax_target,
      target_q = ReactiveCompensationLimits_q_min,
      targets_log = Map.empty, iter_count = 0, ss_bus = bus_example_steady\<rparr> (0, 0)
   = (Inr \<lparr>within_limits = False, target_bus = Some (IntL 0),
      target_voltage = ReactiveCompensationLimits_vmax_target,
      target_q = ReactiveCompensationLimits_q_min,
      targets_log = Map.empty, iter_count = 0, ss_bus = bus_example_high\<rparr>, (0, 0))"
  by (simp add: search_defs bus_defs engine_high_sel bus_example_high_def bus_example_steady_def
      cont_example_def Contingency_init_def frame_defs name_defs float_defs Let_def)

lemma first_pass:
  "search_body engine_high cont_example
     \<lparr>within_limits = False, target_bus = Some (IntL 0),
      target_voltage = ReactiveCompensationLimits_vmax_target,
      target_q = ReactiveCompensationLimits_q_min,
      targets_log = Map.empty, iter_count = 0, ss_bus = bus_example_high\<rparr> (0, 0)
   = (Inr (search_state_after 0), (1, 0))"
  by (simp add: search_defs search_state_after_def engine_high_sel check_high cont_example_def
      Contingency_init_def ReactiveCompensationLimits_q_min_def Let_def)

text \<open>
  C3.  The search should stop once 100 passes have been made.  The loop tests the voltage
  target and the reactive dispatch only; the pass counter is incremented and never tested.
  On the engine that leaves the bus at 1.2 pu after every (convergent) solve, the search
  makes 101 passes, with 101 solves, before the voltage target reaches its floor.
\<close>

theorem search_makes_101_passes:
  "(case Contingency_check_voltage_adjust_machines engine_high cont_example bus_example_steady (0, 0) of
      (Inl e, w) \<Rightarrow> False
    | (Inr s, w) \<Rightarrow> iter_count s = 101 \<and> fst w = 101 \<and> \<not> within_limits s)"
proof -
  have guard0: "ReactiveCompensationLimits_vmax_target > ReactiveCompensationLimits_vmin_target"
    "ReactiveCompensationLimits_q_min > ReactiveCompensationLimits_q_max"
    by (simp_all add: ReactiveCompensationLimits_vmax_target_def ReactiveCompensationLimits_vmin_target_def
        ReactiveCompensationLimits_q_min_def ReactiveCompensationLimits_q_max_def)
  have "Contingency_check_voltage_adjust_machines engine_high cont_example bus_example_steady (0, 0)
      = search_loop engine_high cont_example (search_state_after 0) (1, 0)"
    unfolding Contingency_check_voltage_adjust_machines_def first_check
    using guard0 by (simp add: search_loop_run first_pass)
  also have "\<dots> = (Inr (search_state_after 100), (101, 0))"
    using loop_after [of 0 1 0] by simp
  finally show ?thesis
    by (simp add: search_state_after_def)
qed



subsection \<open>Failed setup and islanding\<close>

lemma update_voltages_nan:
  "BusData_update_voltages p bd name step True w
     = Inr (if step then bd\<lparr>df_voltage_step := setitem_scalar (df_voltage_step bd) name NaN\<rparr>
            else bd\<lparr>df_voltage_steady := setitem_scalar (df_voltage_steady bd) name NaN\<rparr>)"
  by (simp add: BusData_update_voltages_def)

text \<open>
  C6.  If a switching call fails while a contingency (other than the base case) is set up,
  the contingency is marked as not set up correctly; testing it then makes no call that
  changes the engine (no solve: the engine state is returned as it was) and stores
  not-a-number in every row of the column of the contingency in both the step-change and the
  steady-state voltage table.  Setting up is taken to have returned, that is, the data
  retrievals after the switching did not raise.
\<close>

theorem setup_failure_is_recorded:
  assumes name: "cname c \<noteq> Contingency_bc"
    and fail: "False \<in> set (fst (switch_elements p c sd w))"
    and stp: "Contingency_setup_contingency p c sd w = (Inr (c', sd'), w')"
  shows "\<not> setup_correctly c'
       \<and> (\<exists>bd. Contingency_test_contingency p c' sd' adjust_reactive w'
                  = (Inr (False, c', sd'\<lparr>sd_bus := bd\<rparr>), w')
              \<and> df_columns (df_voltage_step bd) (cname c)
                  = Some (replicate (length (df_index (df_voltage_step bd))) NaN)
              \<and> df_columns (df_voltage_steady bd) (cname c)
                  = Some (replicate (length (df_index (df_voltage_steady bd))) NaN)
              \<and> df_index (df_voltage_step bd) = df_index (df_voltage_step (sd_bus sd'))
              \<and> df_index (df_voltage_steady bd) = df_index (df_voltage_steady (sd_bus sd')))"
proof -
  from stp name have c': "c' = c\<lparr>setup_correctly := list_all id (fst (switch_elements p c sd w))\<rparr>"
    by (auto simp: Contingency_setup_contingency_def split: prod.splits sum.splits)
  with fail have ns: "\<not> setup_correctly c'" and nm: "cname c' = cname c"
    by (auto simp: list_all_iff)
  show ?thesis
    using ns nm
    by (auto simp: Contingency_test_contingency_def update_voltages_nan and_then_def setitem_scalar_def)
qed

lemma engine_switch_fail_sel:
  "branch_chng engine_switch_fail = (\<lambda>i j ckt st w. (1, w))"
  "abusint engine_switch_fail = (\<lambda>sid flag (n, k). (0, [101, 102], [3, 1]))"
  "abuschar engine_switch_fail = (\<lambda>sid flag w. 0)"
  "abusreal engine_switch_fail = (\<lambda>sid flag (n, k). (0, [220, 220], [1, 1]))"
  "abrnint engine_switch_fail = (\<lambda>sid flag w. (0, [], [], []))"
  "abrnchar engine_switch_fail = (\<lambda>sid flag w. 0)"
  "abrnreal engine_switch_fail = (\<lambda>sid flag w. (0, [], [], [], []))"
  "awndint engine_switch_fail = (\<lambda>sid flag w. (0, [], [], [], [], []))"
  "awndchar engine_switch_fail = (\<lambda>sid flag w. 0)"
  "awndreal engine_switch_fail = (\<lambda>sid flag w. (0, [], [], [], []))"
  "atr3int engine_switch_fail = (\<lambda>sid flag w. (0, [], [], [], []))"
  "atr3char engine_switch_fail = (\<lambda>sid flag w. 0)"
  "afxshuntint engine_switch_fail = (\<lambda>sid flag w. (0, [], []))"
  "afxshuntchar engine_switch_fail = (\<lambda>sid flag w. 0)"
  "aswshint engine_switch_fail = (\<lambda>sid flag w. (0, [], []))"
  "aswshchar engine_switch_fail = (\<lambda>sid flag w. 0)"
  by (simp_all add: engine_switch_fail_def engine_def fun_eq_iff)

lemmas data_defs = BranchData_update_def Tx3WndData_update_def Tx3Data_update_def
  ShuntData_update_def MachineData_update_def update_all_def

lemmas switch_defs = switch_elements_def BranchData_switch_def Tx3Data_switch_def
  BusData_switch_def ShuntData_switch_def

theorem setup_failure_is_recorded_witness:
  "(case Contingency_setup_contingency engine_switch_fail cont_example study_example (0, 0) of
      (Inl e, w) \<Rightarrow> False
    | (Inr (c', sd'), w') \<Rightarrow>
        \<not> setup_correctly c'
        \<and> (case Contingency_test_contingency engine_switch_fail c' sd' False w' of
              (Inl e, w) \<Rightarrow> False
            | (Inr (b, c2, sd2), w2) \<Rightarrow>
                \<not> b \<and> w2 = (0, 0)
                \<and> df_columns (df_voltage_step (sd_bus sd2)) ''C'' = Some [NaN, NaN]
                \<and> df_columns (df_voltage_steady (sd_bus sd2)) ''C'' = Some [NaN, NaN]))"
proof -
  have name: "cname cont_example \<noteq> Contingency_bc"
    by (simp add: cont_example_def Contingency_init_def Contingency_bc_def)
  have fail: "False \<in> set (fst (switch_elements engine_switch_fail cont_example study_example (0, 0)))"
    by (simp add: switch_defs cont_example_def Contingency_init_def study_example_def
        engine_switch_fail_sel)
  have "\<exists>c' sd'. Contingency_setup_contingency engine_switch_fail cont_example study_example (0, 0)
            = (Inr (c', sd'), (0, 0))
          \<and> cname c' = ''C''
          \<and> length (df_index (df_voltage_step (sd_bus sd'))) = 2
          \<and> length (df_index (df_voltage_steady (sd_bus sd'))) = 2"
    by (auto simp: Contingency_setup_contingency_def switch_defs data_defs bus_defs
        cont_example_def Contingency_init_def study_example_def bus_example_two_def
        engine_switch_fail_sel frame_defs name_defs Let_def)
  then obtain c' sd' where
    stp: "Contingency_setup_contingency engine_switch_fail cont_example study_example (0, 0)
              = (Inr (c', sd'), (0, 0))"
    and nm: "cname c' = ''C''"
    and len: "length (df_index (df_voltage_step (sd_bus sd'))) = 2"
      "length (df_index (df_voltage_steady (sd_bus sd'))) = 2"
    by blast
  from setup_failure_is_recorded [OF name fail stp, of False] obtain bd where
    ns: "\<not> setup_correctly c'"
    and test: "Contingency_test_contingency engine_switch_fail c' sd' False (0, 0)
                 = (Inr (False, c', sd'\<lparr>sd_bus := bd\<rparr>), (0, 0))"
    and cols: "df_columns (df_voltage_step bd) (cname cont_example)
                 = Some (replicate (length (df_index (df_voltage_step bd))) NaN)"
      "df_columns (df_voltage_steady bd) (cname cont_example)
                 = Some (replicate (length (df_index (df_voltage_steady bd))) NaN)"
    and idx: "df_index (df_voltage_step bd) = df_index (df_voltage_step (sd_bus sd'))"
      "df_index (df_voltage_steady bd) = df_index (df_voltage_steady (sd_bus sd'))"
    by blast
  have "cname cont_example = ''C''"
    by (simp add: cont_example_def Contingency_init_def)
  with stp ns test cols idx len show ?thesis
    by (simp add: numeral_2_eq_2)
qed

lemma engine_island_sel:
  "fnsl engine_island = (\<lambda>t s f (n, k). (if n = 0 then 3 else 0, (Suc n, k)))"
  "solved engine_island = (\<lambda>(n, k). 0)"
  "island engine_island = (\<lambda>(n, k). (0, (n, Suc k)))"
  "abusint engine_island = (\<lambda>sid flag (n, k).
      let bs = (if flag = 1 then (if k = 0 then [(101, 3), (102, 1)] else [(101, 3)])
                else [(101, 3), (102, 1)])
      in (0, map fst bs, map snd bs))"
  "abuschar engine_island = (\<lambda>sid flag w. 0)"
  "abusreal engine_island = (\<lambda>sid flag (n, k).
      let bs = (if flag = 1 then (if k = 0 then [(101, 3), (102, 1)] else [(101, 3)])
                else [(101::int, 3::int), (102, 1)])
      in (0, map (\<lambda>_. 220) bs, map (\<lambda>_. 1) bs))"
  by (simp_all add: engine_island_def engine_def fun_eq_iff)

lemmas flow_defs = step_change_solve_def PsseControl_run_load_flow_def
  PsseControl_check_convergent_load_flow_def PsseControl_get_islanded_busbars_def

text \<open>
  C7.  When the solve with locked taps reports an island, the islanded buses should be
  marked out of service (bus type 4) in the column of the contingency in the bus states, and
  the solve is repeated.  In the example bus 102 is islanded.  The solve is repeated once
  (two solves, one island call), but the column of contingency C holds type 1 for bus 102,
  the in-service type it had before the engine disconnected it, and not-a-number for bus
  101, whose state of the contingency is lost.
\<close>

theorem islanded_buses_recorded:
  "(case step_change_solve engine_island cont_example bus_example_two (0, 0) of
      (Inl e, w) \<Rightarrow> False
    | (Inr (conv, bd), w) \<Rightarrow>
        conv \<and> w = (2, 1) \<and> df_index (df_state bd) = [IntL 101, IntL 102]
        \<and> df_columns (df_state bd) ''C'' = Some [NaN, Num 1])"
  by (simp add: flow_defs BusData_init_def BusData_update_def BusData_get_voltages_def
      BusData_add_islanded_busbars_def engine_island_sel cont_example_def Contingency_init_def
      bus_example_two_def frame_defs name_defs Let_def)


subsection \<open>The study and the batch\<close>

lemma engine_net_sel:
  "case_load engine_net = (\<lambda>pth (n, k, out). if pth = ''bad.sav'' then (1, (n, k, out))
                                       else (0, (n, k, False)))"
  "solution_parameters_4 engine_net = (\<lambda>w. (0, w))"
  "bsys engine_net = (\<lambda>bs w. (0, w))"
  "fnsl engine_net = (\<lambda>t s f (n, k, out). (0, (Suc n, k, out)))"
  "fdns engine_net = (\<lambda>t s f (n, k, out). (0, (Suc n, k, out)))"
  "solved engine_net = (\<lambda>w. 0)"
  "island engine_net = (\<lambda>(n, k, out). (0, (n, Suc k, out)))"
  "abusint engine_net = (\<lambda>sid flag w. (0, [101, 102, 103, 104], [3, 1, 1, 1]))"
  "abuschar engine_net = (\<lambda>sid flag w. 0)"
  "abusreal engine_net = (\<lambda>sid flag (n, k, out).
                  (0, [400, 220, 110, 220], [1, 1, 1, if out then 31 / 32 else 1]))"
  "abrnint engine_net = (\<lambda>sid flag (n, k, out).
                  if flag = 2 then (0, [102, 104], [104, 102], if out then [0, 0] else [1, 1])
                  else if flag = 6 then (0, [103, 104], [104, 103], [1, 1])
                  else (0, [], [], []))"
  "abrnchar engine_net = (\<lambda>sid flag w. 0)"
  "abrnreal engine_net = (\<lambda>sid flag (n, k, out).
                  if flag = 2
                  then (0, [100, 100], [100, 100], [100, 100], if out then [0, 0] else [50, 50])
                  else if flag = 6
                  then (0, [100, 100], [100, 100], [100, 100], if out then [60, 60] else [30, 30])
                  else (0, [], [], [], []))"
  "awndint engine_net = (\<lambda>sid flag w.
                  (0, [101, 102, 103], [101, 101, 101], [102, 102, 102], [103, 103, 103],
                   [1, 1, 1]))"
  "awndchar engine_net = (\<lambda>sid flag w. 0)"
  "awndreal engine_net = (\<lambda>sid flag w.
                  (0, [200, 200, 200], [200, 200, 200], [200, 200, 200], [80, 50, 30]))"
  "atr3int engine_net = (\<lambda>sid flag w. (0, [101], [102], [103], [1]))"
  "atr3char engine_net = (\<lambda>sid flag w. 0)"
  "afxshuntint engine_net = (\<lambda>sid flag w. (0, [], []))"
  "afxshuntchar engine_net = (\<lambda>sid flag w. 0)"
  "aswshint engine_net = (\<lambda>sid flag w. (0, [], []))"
  "aswshchar engine_net = (\<lambda>sid flag w. 0)"
  "amachint engine_net = (\<lambda>sid flag w. (0, [101], [1]))"
  "amachchar engine_net = (\<lambda>sid flag w. 0)"
  "amachreal engine_net = (\<lambda>sid flag w. (0, [10]))"
  "branch_chng engine_net = (\<lambda>i j ckt st (n, k, out).
                      if i = 102 \<and> j = 104 \<and> ckt = ''1'' then (0, (n, k, st = 0))
                      else (1, (n, k, out)))"
  by (simp_all add: engine_net_def)

lemma band_rows:
  assumes "cols ''BASE'' = Some bs"
  shows "add_band_limits ((a, b), (lo, hi)) \<lparr>df_index = idx, df_columns = cols\<rparr>
    = \<lparr>df_index = idx,
       df_columns = cols(
          ''LOWER_LIMIT'' \<mapsto> map (\<lambda>(m, x). if m then Num lo else x)
             (zip (map (\<lambda>x. flt (Num a) x \<and> fle x (Num b)) bs)
                (case cols ''LOWER_LIMIT'' of None \<Rightarrow> replicate (length idx) NaN | Some xs \<Rightarrow> xs)),
          ''UPPER_LIMIT'' \<mapsto> map (\<lambda>(m, x). if m then Num hi else x)
             (zip (map (\<lambda>x. flt (Num a) x \<and> fle x (Num b)) bs)
                (case cols ''UPPER_LIMIT'' of None \<Rightarrow> replicate (length idx) NaN | Some xs \<Rightarrow> xs)))\<rparr>"
  using assms
  by (simp add: add_band_limits_def loc_mask_set_def column_or_nan_def name_defs Let_def
      cong: option.case_cong)

lemma avl_net:
  assumes "cols ''BASE'' = Some [Num 400, Num 220, Num 110, Num 220]"
    "cols ''LOWER_LIMIT'' = None" "cols ''UPPER_LIMIT'' = None"
  shows "BusData_add_voltage_limits \<lparr>df_index = [a, b, c, d], df_columns = cols\<rparr>
    = \<lparr>df_index = [a, b, c, d],
       df_columns = cols(
         ''LOWER_LIMIT'' \<mapsto> [Num (360 / 380), Num (200 / 220), Num (99 / 110), Num (200 / 220)],
         ''UPPER_LIMIT'' \<mapsto> [Num (410 / 380), Num (240 / 220), Num (120 / 110), Num (240 / 220)])\<rparr>"
proof -
  let ?d = "\<lambda>lo hi. \<lparr>df_index = [a, b, c, d],
       df_columns = cols(''LOWER_LIMIT'' \<mapsto> lo, ''UPPER_LIMIT'' \<mapsto> hi)\<rparr>"
  have "BusData_add_voltage_limits \<lparr>df_index = [a, b, c, d], df_columns = cols\<rparr>
      = add_band_limits ((379, 401), (360 / 380, 410 / 380))
          (add_band_limits ((250, 276), (250 / 275, 303 / 275))
            (add_band_limits ((219, 221), (200 / 220, 240 / 220))
              (add_band_limits ((109, 111), (99 / 110, 120 / 110))
                 \<lparr>df_index = [a, b, c, d], df_columns = cols\<rparr>)))"
    by (simp add: BusData_add_voltage_limits_def EirGridThresholds_steady_state_limits_def)
  also have "add_band_limits ((109, 111), (99 / 110, 120 / 110))
        \<lparr>df_index = [a, b, c, d], df_columns = cols\<rparr>
      = ?d [NaN, NaN, Num (99 / 110), NaN] [NaN, NaN, Num (120 / 110), NaN]"
    by (subst band_rows [where bs = "[Num 400, Num 220, Num 110, Num 220]"])
      (simp_all add: assms float_defs)
  also have "add_band_limits ((219, 221), (200 / 220, 240 / 220))
        (?d [NaN, NaN, Num (99 / 110), NaN] [NaN, NaN, Num (120 / 110), NaN])
      = ?d [NaN, Num (200 / 220), Num (99 / 110), Num (200 / 220)]
           [NaN, Num (240 / 220), Num (120 / 110), Num (240 / 220)]"
    by (subst band_rows [where bs = "[Num 400, Num 220, Num 110, Num 220]"])
      (simp_all add: assms float_defs)
  also have "add_band_limits ((250, 276), (250 / 275, 303 / 275))
        (?d [NaN, Num (200 / 220), Num (99 / 110), Num (200 / 220)]
           [NaN, Num (240 / 220), Num (120 / 110), Num (240 / 220)])
      = ?d [NaN, Num (200 / 220), Num (99 / 110), Num (200 / 220)]
           [NaN, Num (240 / 220), Num (120 / 110), Num (240 / 220)]"
    by (subst band_rows [where bs = "[Num 400, Num 220, Num 110, Num 220]"])
      (simp_all add: assms float_defs)
  also have "add_band_limits ((379, 401), (360 / 380, 410 / 380))
        (?d [NaN, Num (200 / 220), Num (99 / 110), Num (200 / 220)]
           [NaN, Num (240 / 220), Num (120 / 110), Num (240 / 220)])
      = ?d [Num (360 / 380), Num (200 / 220), Num (99 / 110), Num (200 / 220)]
           [Num (410 / 380), Num (240 / 220), Num (120 / 110), Num (240 / 220)]"
    by (subst band_rows [where bs = "[Num 400, Num 220, Num 110, Num 220]"])
      (simp_all add: assms float_defs)
  finally show ?thesis .
qed

lemma range_index_simps:
  "range_index 0 = []"
  "range_index (Suc 0) = [IntL 0]"
  "range_index 2 = [IntL 0, IntL 1]"
  "range_index 3 = [IntL 0, IntL 1, IntL 2]"
  by (simp_all add: range_index_def upt_rec)

lemma init_rest_net:
  "MachineData_init engine_net 1 (n, k, False) = Inr (sd_machine study_net)"
  "BranchData_init engine_net 2 False 1 (n, k, False) = Inr (sd_circuit study_net)"
  "BranchData_init engine_net 6 True 1 (n, k, False) = Inr (sd_tx2 study_net)"
  "Tx3Data_init engine_net 1 (n, k, False) = Inr (sd_tx3 study_net)"
  "Tx3WndData_init engine_net 1 (n, k, False) = Inr (sd_tx3_wind study_net)"
  "ShuntData_init engine_net True 1 (n, k, False) = Inr (sd_fixed_shunt study_net)"
  "ShuntData_init engine_net False 1 (n, k, False) = Inr (sd_switched_shunt study_net)"
  by (simp_all add: MachineData_init_def MachineData_update_def BranchData_init_def
      BranchData_update_def Tx3Data_init_def Tx3Data_update_def Tx3WndData_init_def
      Tx3WndData_update_def ShuntData_init_def ShuntData_update_def
      engine_net_sel study_net_def frame_defs name_defs Let_def fun_eq_iff range_index_simps)

lemma init_bus_net:
  "BusData_init engine_net 2 1 (n, k, False) = Inr (sd_bus study_net)"
proof -
  have vs: "select_columns
        (mk_frame [IntL 101, IntL 102, IntL 103, IntL 104]
          [(Busbars_bus, ints [101, 102, 103, 104]), (Busbars_state, ints [3, 1, 1, 1]),
           (Busbars_nominal, reals [400, 220, 110, 220]), (Busbars_voltage, reals [1, 1, 1, 1])])
        [Busbars_bus, Busbars_nominal, Busbars_voltage]
      = \<lparr>df_index = [IntL 101, IntL 102, IntL 103, IntL 104],
         df_columns = [''NUMBER'' \<mapsto> [Num 101, Num 102, Num 103, Num 104],
                       ''BASE'' \<mapsto> [Num 400, Num 220, Num 110, Num 220],
                       ''PU'' \<mapsto> [Num 1, Num 1, Num 1, Num 1]]\<rparr>"
    by (simp add: frame_defs name_defs fun_eq_iff)
  have lim: "BusData_add_voltage_limits
        \<lparr>df_index = [IntL 101, IntL 102, IntL 103, IntL 104],
         df_columns = [''NUMBER'' \<mapsto> [Num 101, Num 102, Num 103, Num 104],
                       ''BASE'' \<mapsto> [Num 400, Num 220, Num 110, Num 220],
                       ''PU'' \<mapsto> [Num 1, Num 1, Num 1, Num 1]]\<rparr>
      = \<lparr>df_index = [IntL 101, IntL 102, IntL 103, IntL 104],
         df_columns = [''NUMBER'' \<mapsto> [Num 101, Num 102, Num 103, Num 104],
                       ''BASE'' \<mapsto> [Num 400, Num 220, Num 110, Num 220],
                       ''PU'' \<mapsto> [Num 1, Num 1, Num 1, Num 1],
                       ''LOWER_LIMIT'' \<mapsto> [Num (360 / 380), Num (200 / 220), Num (99 / 110),
                                           Num (200 / 220)],
                       ''UPPER_LIMIT'' \<mapsto> [Num (410 / 380), Num (240 / 220), Num (120 / 110),
                                           Num (240 / 220)]]\<rparr>"
    by (rule avl_net) simp_all
  show ?thesis
    unfolding BusData_init_def BusData_update_def
    by (simp add: BusData_get_voltages_def engine_net_sel and_then_def vs lim Let_def)
      (simp add: study_net_def frame_defs name_defs fun_eq_iff)
qed

lemma init_net: "initial_data engine_net 1 (n, k, False) = Inr study_net"
  by (simp add: initial_data_def init_bus_net init_rest_net and_then_def study_net_def)

lemmas run_defs = Contingency_setup_contingency_def switch_elements_def update_all_def
  BranchData_switch_def Tx3Data_switch_def BusData_switch_def ShuntData_switch_def
  Contingency_test_contingency_def step_change_solve_def steady_state_solve_def
  record_steady_state_def PsseControl_run_load_flow_def
  PsseControl_check_convergent_load_flow_def PsseControl_load_data_case_def
  PsseControl_define_bus_subsystem_def BusData_update_voltages_def BusData_update_def
  BusData_get_voltages_def BranchData_update_def Tx3WndData_update_def Tx3Data_update_def
  ShuntData_update_def MachineData_update_def
  Contingency_init_def Contingency_convergent_flag_def convergence_message_def
  ReactiveCompensationLimits_target_shunts_def compliance_checks_def cv_set_def set_row_def
  BusData_check_compliance_def BranchData_check_compliance_def Tx3WndData_check_compliance_def
  branch_condition_def tx3wnd_condition_def steady_condition_def rows_to_ignore_def
  EirGridThresholds_cont_step_change_limit_def EirGridThresholds_reactor_step_change_limit_def
  EirGridThresholds_rating_threshold_def PSSE_sid_def
  Contingency_convergent_def Contingency_non_convergent_def Contingency_non_convergent_vstep_def
  Contingency_non_convergent_vsteady_def

lemma main_net:
  "\<exists>r. Main_main engine_net [cont_net] ''case.sav'' False [] (0, 0, False) = (Inr r, (3, 0, False))
       \<and> res_step r = [(''C'', Flag True), (''BASE_CASE'', Flag True)]
       \<and> res_steady r = [(''C'', Flag True)]
       \<and> res_circuit r = [(''C'', Flag True)]
       \<and> res_tx2 r = [(''C'', Flag True)]
       \<and> res_tx3 r = [(''C'', Flag True)]
       \<and> cv_index (res_convergence r) = [''C'', ''BASE_CASE'']
       \<and> cv_rows (res_convergence r) ''C'' = Some (''Convergent'', True)"
  by (simp add: Main_main_def init_net cont_net_def engine_net_sel run_defs
      study_net_def frame_defs name_defs float_defs Let_def range_index_simps)

lemma main_bad_case:
  "Main_main engine_net conts ''bad.sav'' adj bb (n, k, out) = (Inl ValueError, (n, k, out))"
  by (simp add: Main_main_def PsseControl_load_data_case_def engine_net_sel)

lemma main_bus_error:
  "Main_main engine_bus_error conts ''case.sav'' adj bb (n, k, out)
     = (Inl SyntaxError, (Suc n, k, False))"
  by (simp add: Main_main_def PsseControl_load_data_case_def PsseControl_define_bus_subsystem_def
      PsseControl_run_load_flow_def PsseControl_check_convergent_load_flow_def
      initial_data_def BusData_init_def BusData_update_def and_then_def
      engine_bus_error_def engine_net_sel df_empty_def empty_frame_def)

lemma main_script_error:
  "Main_main engine_script_error conts ''case.sav'' adj bb (n, k, out)
     = (Inl SyntaxError, (Suc n, k, False))"
  by (simp add: Main_main_def PsseControl_load_data_case_def PsseControl_define_bus_subsystem_def
      PsseControl_run_load_flow_def engine_script_error_def engine_net_sel)















lemma batch_all_attempted:
  "fst (fst (batch p conts bb cases lg w)) = None \<Longrightarrow>
   map fst (snd (fst (batch p conts bb cases lg w))) = map fst lg @ map fst cases"
proof (induction cases arbitrary: lg w)
  case Nil
  then show ?case by simp
next
  case (Cons cs cases)
  obtain pth adj where cs: "cs = (pth, adj)" by (cases cs)
  obtain res w1 where m: "Main_main p conts pth adj bb w = (res, w1)"
    by (cases "Main_main p conts pth adj bb w")
  show ?case
  proof (cases res)
    case (Inr r)
    with Cons.prems m cs have "fst (fst (batch p conts bb cases (lg @ [(pth, True)]) w1)) = None"
      by simp
    from Cons.IH [OF this] Inr m cs show ?thesis by simp
  next
    case (Inl e)
    show ?thesis
    proof (cases "e = ValueError")
      case True
      with Cons.prems m cs Inl
      have "fst (fst (batch p conts bb cases (lg @ [(pth, False)]) w1)) = None"
        by simp
      from Cons.IH [OF this] Inl True m cs show ?thesis by simp
    next
      case False
      with Cons.prems m cs Inl show ?thesis
        by (cases e) simp_all
    qed
  qed
qed

text \<open>
  C8, as the code has it.  The batch loop catches a ValueError of the study of a case, logs
  the case as not completed and goes on with the next case; an exception of any other type
  leaves the loop; when the batch ends without such an exception, every selected case has
  been attempted, in order.
\<close>

theorem batch_catches_value_error:
  "(fst (Main_main p conts pth adj bb w) = Inl ValueError \<longrightarrow>
      batch p conts bb ((pth, adj) # rest) lg w
        = batch p conts bb rest (lg @ [(pth, False)]) (snd (Main_main p conts pth adj bb w)))
   \<and> (fst (Main_main p conts pth adj bb w) = Inl e \<and> e \<noteq> ValueError \<longrightarrow>
      batch p conts bb ((pth, adj) # rest) lg w
        = ((Some e, lg @ [(pth, False)]), snd (Main_main p conts pth adj bb w)))
   \<and> (fst (fst (batch p conts bb cases lg w)) = None \<longrightarrow>
      map fst (snd (fst (batch p conts bb cases lg w))) = map fst lg @ map fst cases)"
proof -
  obtain res w1 where m: "Main_main p conts pth adj bb w = (res, w1)"
    by (cases "Main_main p conts pth adj bb w")
  have "res = Inl e \<Longrightarrow> e \<noteq> ValueError \<Longrightarrow>
      batch p conts bb ((pth, adj) # rest) lg w = ((Some e, lg @ [(pth, False)]), w1)"
    using m by (cases e) simp_all
  with m show ?thesis
    by (auto simp: batch_all_attempted)
qed

theorem batch_catches_value_error_witness:
  "fst (batch engine_net [cont_net] [] [(''bad.sav'', False), (''case.sav'', False)] []
          (0, 0, False))
     = (None, [(''bad.sav'', False), (''case.sav'', True)])"
proof -
  have bad: "Main_main engine_net [cont_net] ''bad.sav'' False [] (0, 0, False)
      = (Inl ValueError, (0, 0, False))"
    by (rule main_bad_case)
  from main_net obtain r where
    run: "Main_main engine_net [cont_net] ''case.sav'' False [] (0, 0, False)
            = (Inr r, (3, 0, False))"
    by blast
  from batch_catches_value_error [of engine_net "[cont_net]" "''bad.sav''" False "[]"
      "(0, 0, False)" "[(''case.sav'', False)]" "[]"] bad
  have "batch engine_net [cont_net] [] [(''bad.sav'', False), (''case.sav'', False)] []
          (0, 0, False)
      = batch engine_net [cont_net] [] [(''case.sav'', False)] [(''bad.sav'', False)]
          (0, 0, False)"
    by simp
  with run show ?thesis
    by simp
qed

lemma batch_stops_at_bus_error:
  "fst (batch engine_bus_error [cont_net] [] [(''case.sav'', False), (''other.sav'', False)] []
          (0, 0, False))
     = (Some SyntaxError, [(''case.sav'', False)])"
  by (simp add: main_bus_error)

text \<open>
  C8, as stated, fails: when the solver reports that its prerequisites are not met, the
  study of the first case raises SyntaxError, which the batch loop does not catch; the
  batch ends there and the second case is not attempted.
\<close>

theorem batch_stops_at_script_error:
  "fst (Main_main engine_script_error [cont_net] ''case.sav'' False [] (0, 0, False))
     = Inl SyntaxError
   \<and> fst (batch engine_script_error [cont_net] []
             [(''case.sav'', False), (''other.sav'', False)] [] (0, 0, False))
       = (Some SyntaxError, [(''case.sav'', False)])"
  by (simp add: main_script_error)

end
